theory Spec2Isabelle
  imports Main
begin

section \<open>Python strings and library functions\<close>

text \<open>
  Command strings are Python \<^verbatim>\<open>str\<close> values. They are modelled as \<^typ>\<open>string\<close>, one
  \<^typ>\<open>char\<close> per code point, which covers the code points 0..255. The library functions
  the security module calls (\<^verbatim>\<open>str\<close> methods, \<^verbatim>\<open>shlex.split\<close>, \<^verbatim>\<open>re.split\<close>,
  \<^verbatim>\<open>re.finditer\<close>, \<^verbatim>\<open>os.path.basename\<close>, \<^verbatim>\<open>int\<close>) are modelled after CPython.
\<close>

abbreviation SQ :: char where "SQ \<equiv> CHR 0x27"
abbreviation DQ :: char where "DQ \<equiv> CHR 0x22"
abbreviation BSL :: char where "BSL \<equiv> CHR 0x5C"

datatype py_error = ValueError string | IndexError string | OSError string | RuntimeError string

text \<open>\<^verbatim>\<open>str.isspace\<close> on one code point below 256; the class \<^verbatim>\<open>\s\<close> of \<^verbatim>\<open>re\<close> is the same.\<close>

definition py_isspace :: "char \<Rightarrow> bool" where
  "py_isspace c = (c \<in> set [CHR 0x09, CHR 0x0A, CHR 0x0B, CHR 0x0C, CHR 0x0D, CHR 0x1C,
     CHR 0x1D, CHR 0x1E, CHR 0x1F, CHR 0x20, CHR 0x85, CHR 0xA0])"

text \<open>\<^verbatim>\<open>s.startswith(p)\<close>, \<^verbatim>\<open>s.endswith(p)\<close> and \<^verbatim>\<open>p in s\<close>.\<close>

fun startswith :: "string \<Rightarrow> string \<Rightarrow> bool" where
  "startswith s [] = True"
| "startswith [] (p # ps) = False"
| "startswith (c # cs) (p # ps) = (c = p \<and> startswith cs ps)"

definition endswith :: "string \<Rightarrow> string \<Rightarrow> bool" where
  "endswith s p = startswith (rev s) (rev p)"

fun contains :: "string \<Rightarrow> string \<Rightarrow> bool" where
  "contains [] p = (p = [])"
| "contains (c # cs) p = (startswith (c # cs) p \<or> contains cs p)"

text \<open>\<^verbatim>\<open>s.strip()\<close>, and \<^verbatim>\<open>s.split()\<close> on runs of whitespace.\<close>

definition py_strip :: "string \<Rightarrow> string" where
  "py_strip s = rev (dropWhile py_isspace (rev (dropWhile py_isspace s)))"

fun py_split_ws :: "string \<Rightarrow> string \<Rightarrow> string list" where
  "py_split_ws word [] = (if word = [] then [] else [word])"
| "py_split_ws word (c # cs) =
     (if py_isspace c then (if word = [] then py_split_ws [] cs else word # py_split_ws [] cs)
      else py_split_ws (word @ [c]) cs)"

definition py_split :: "string \<Rightarrow> string list" where
  "py_split s = py_split_ws [] s"

text \<open>\<^verbatim>\<open>os.path.basename\<close> of posixpath: what follows the last slash.\<close>

definition basename :: "string \<Rightarrow> string" where
  "basename p = rev (takeWhile (\<lambda>c. c \<noteq> CHR ''/'') (rev p))"

subsection \<open>shlex.split\<close>

text \<open>
  \<^verbatim>\<open>shlex.split(s)\<close> runs the POSIX-mode lexer with \<^verbatim>\<open>whitespace_split = True\<close> and no
  comment characters. The lexer's state is \<^verbatim>\<open>' '\<close> (between tokens), \<^verbatim>\<open>'a'\<close> (in a word),
  a quote character (inside that quote), or the backslash (after an escape, with
  \<^verbatim>\<open>escapedstate\<close> the state to return to: \<^verbatim>\<open>'a'\<close>, here \<open>None\<close>, or the open quote).
  End of input inside a quote or after a backslash raises \<^verbatim>\<open>ValueError\<close>.
\<close>

datatype lex_state = LexSpace | LexWord | LexQuote char | LexEscape "char option"

definition shlex_whitespace :: "char \<Rightarrow> bool" where
  "shlex_whitespace c = (c \<in> set [CHR 0x20, CHR 0x09, CHR 0x0D, CHR 0x0A])"

definition emit :: "string \<Rightarrow> py_error + string list \<Rightarrow> py_error + string list" where
  "emit tok r = (case r of Inl e \<Rightarrow> Inl e | Inr ts \<Rightarrow> Inr (tok # ts))"

fun shlex_read :: "lex_state \<Rightarrow> string \<Rightarrow> bool \<Rightarrow> string \<Rightarrow> py_error + string list" where
  "shlex_read st tok quoted [] =
     (case st of
        LexQuote q \<Rightarrow> Inl (ValueError ''No closing quotation'')
      | LexEscape e \<Rightarrow> Inl (ValueError ''No escaped character'')
      | _ \<Rightarrow> Inr (if tok = [] \<and> \<not> quoted then [] else [tok]))"
| "shlex_read LexSpace tok quoted (c # cs) =
     (if shlex_whitespace c then
        (if tok \<noteq> [] \<or> quoted then emit tok (shlex_read LexSpace [] False cs)
         else shlex_read LexSpace tok quoted cs)
      else if c = BSL then shlex_read (LexEscape None) tok quoted cs
      else if c = SQ \<or> c = DQ then shlex_read (LexQuote c) tok quoted cs
      else shlex_read LexWord [c] quoted cs)"
| "shlex_read LexWord tok quoted (c # cs) =
     (if shlex_whitespace c then
        (if tok \<noteq> [] \<or> quoted then emit tok (shlex_read LexSpace [] False cs)
         else shlex_read LexSpace tok quoted cs)
      else if c = SQ \<or> c = DQ then shlex_read (LexQuote c) tok quoted cs
      else if c = BSL then shlex_read (LexEscape None) tok quoted cs
      else shlex_read LexWord (tok @ [c]) quoted cs)"
| "shlex_read (LexQuote q) tok quoted (c # cs) =
     (if c = q then shlex_read LexWord tok True cs
      else if c = BSL \<and> q = DQ then shlex_read (LexEscape (Some q)) tok True cs
      else shlex_read (LexQuote q) (tok @ [c]) True cs)"
| "shlex_read (LexEscape None) tok quoted (c # cs) = shlex_read LexWord (tok @ [c]) quoted cs"
| "shlex_read (LexEscape (Some q)) tok quoted (c # cs) =
     shlex_read (LexQuote q) ((if c \<noteq> BSL \<and> c \<noteq> q then tok @ [BSL] else tok) @ [c]) quoted cs"

definition shlex_split :: "string \<Rightarrow> py_error + string list" where
  "shlex_split s = shlex_read LexSpace [] False s"

subsection \<open>The regular expressions\<close>

text \<open>
  \<^verbatim>\<open>(?<!["'])\s*;\s*(?!["'])\<close>: a match starts where the previous character is not a quote,
  takes all whitespace up to a semicolon, the semicolon, and the whitespace after it; when
  a quote follows that whitespace the last whitespace character is given back, and with no
  whitespace to give back there is no match. \<open>semi_match rest\<close> is the length of the match
  at the start of \<open>rest\<close>.
\<close>

definition is_quote :: "char \<Rightarrow> bool" where
  "is_quote c = (c = DQ \<or> c = SQ)"

definition semi_match :: "string \<Rightarrow> nat option" where
  "semi_match rest =
     (let ws = takeWhile py_isspace rest in
      case dropWhile py_isspace rest of
        [] \<Rightarrow> None
      | c # r2 \<Rightarrow>
          if c \<noteq> CHR '';'' then None
          else let ws2 = takeWhile py_isspace r2 in
            (case dropWhile py_isspace r2 of
               [] \<Rightarrow> Some (length ws + 1 + length ws2)
             | d # r3 \<Rightarrow>
                 if is_quote d then (if ws2 = [] then None else Some (length ws + length ws2))
                 else Some (length ws + 1 + length ws2)))"

text \<open>\<^verbatim>\<open>\s*(?:&&|\|\|)\s*\<close>: whitespace, one of the two operators, whitespace.\<close>

definition andor_match :: "string \<Rightarrow> nat option" where
  "andor_match rest =
     (let ws = takeWhile py_isspace rest; r1 = dropWhile py_isspace rest in
      if startswith r1 ''&&'' \<or> startswith r1 ''||''
      then Some (length ws + 2 + length (takeWhile py_isspace (drop 2 r1)))
      else None)"

text \<open>
  \<^verbatim>\<open>re.split\<close> with a pattern that never matches the empty string: the leftmost match is
  searched from the end of the previous one, and the text between matches is returned.
  \<open>prev\<close> is the character before the position tried (for the lookbehind), \<open>cur\<close> the
  text since the last match.
\<close>

lemma length_takeWhile_dropWhile:
  "length (takeWhile P xs) + length (dropWhile P xs) = length xs"
  by (induction xs) auto

lemma semi_match_bounds:
  assumes "semi_match rest = Some n"
  shows "0 < n \<and> n \<le> length rest"
proof (cases "dropWhile py_isspace rest")
  case Nil
  with assms show ?thesis by (simp add: semi_match_def)
next
  case (Cons c r2)
  have l1: "length (takeWhile py_isspace rest) + length (dropWhile py_isspace rest) = length rest"
    by (rule length_takeWhile_dropWhile)
  have l2: "length (takeWhile py_isspace r2) + length (dropWhile py_isspace r2) = length r2"
    by (rule length_takeWhile_dropWhile)
  from assms Cons l1 l2 show ?thesis
    by (auto simp: semi_match_def Let_def split: if_splits list.splits)
qed

function re_split_semi_from :: "char option \<Rightarrow> string \<Rightarrow> string \<Rightarrow> string list" where
  "re_split_semi_from prev cur rest =
     (case (if (case prev of None \<Rightarrow> False | Some p \<Rightarrow> is_quote p) then None else semi_match rest) of
        Some n \<Rightarrow> cur # re_split_semi_from (Some (rest ! (n - 1))) [] (drop n rest)
      | None \<Rightarrow>
          (case rest of
             [] \<Rightarrow> [cur]
           | c # cs \<Rightarrow> re_split_semi_from (Some c) (cur @ [c]) cs))"
  by pat_completeness auto
termination
proof (relation "measure (\<lambda>(prev, cur, rest). length rest)")
  fix prev :: "char option" and cur rest :: string and n :: nat
  assume "(if (case prev of None \<Rightarrow> False | Some p \<Rightarrow> is_quote p) then None else semi_match rest) = Some n"
  then have "semi_match rest = Some n" by (simp split: if_splits)
  then have "0 < n \<and> n \<le> length rest" by (rule semi_match_bounds)
  then show "((Some (rest ! (n - 1)), [], drop n rest), (prev, cur, rest))
      \<in> measure (\<lambda>(prev, cur, rest). length rest)" by simp arith
qed auto

definition re_split_semi :: "string \<Rightarrow> string list" where
  "re_split_semi s = re_split_semi_from None [] s"

lemma andor_match_bounds:
  assumes "andor_match rest = Some n"
  shows "0 < n \<and> n \<le> length rest"
proof -
  let ?r1 = "dropWhile py_isspace rest"
  have l1: "length (takeWhile py_isspace rest) + length ?r1 = length rest"
    by (rule length_takeWhile_dropWhile)
  have l2: "length (takeWhile py_isspace (drop 2 ?r1)) \<le> length ?r1 - 2"
    by (metis length_drop length_takeWhile_le)
  from assms have "startswith ?r1 ''&&'' \<or> startswith ?r1 ''||''"
    by (auto simp: andor_match_def Let_def split: if_splits)
  then have "2 \<le> length ?r1"
    by (cases ?r1; cases "tl ?r1") auto
  with assms l1 l2 show ?thesis
    by (auto simp: andor_match_def Let_def split: if_splits)
qed

function re_split_andor_from :: "string \<Rightarrow> string \<Rightarrow> string list" where
  "re_split_andor_from cur rest =
     (case andor_match rest of
        Some n \<Rightarrow> cur # re_split_andor_from [] (drop n rest)
      | None \<Rightarrow>
          (case rest of
             [] \<Rightarrow> [cur]
           | c # cs \<Rightarrow> re_split_andor_from (cur @ [c]) cs))"
  by pat_completeness auto
termination
proof (relation "measure (\<lambda>(cur, rest). length rest)")
  fix cur rest :: string and n :: nat
  assume "andor_match rest = Some n"
  then have "0 < n \<and> n \<le> length rest" by (rule andor_match_bounds)
  then show "(([], drop n rest), (cur, rest)) \<in> measure (\<lambda>(cur, rest). length rest)" by simp arith
qed auto

definition re_split_andor :: "string \<Rightarrow> string list" where
  "re_split_andor s = re_split_andor_from [] s"

section \<open>The command extractor\<close>

text \<open>
  \<^verbatim>\<open>extract_commands\<close>: the string is split at semicolons by the regular expression, each
  segment is stripped and tokenised by \<^verbatim>\<open>shlex.split\<close>, and the tokens are walked with the
  flags \<^verbatim>\<open>expect_command\<close> and \<^verbatim>\<open>skip_next_as_variable\<close>. A segment that does not
  tokenise makes the whole function return the empty list.
\<close>

definition shell_operators :: "string list" where
  "shell_operators = [''|'', ''||'', ''&&'', ''&'', '';'']"

definition shell_keywords :: "string list" where
  "shell_keywords = [''if'', ''then'', ''else'', ''elif'', ''fi'', ''while'', ''until'',
     ''do'', ''done'', ''case'', ''esac'', ''in'', ''!'', ''{'', ''}'']"

fun token_commands :: "bool \<Rightarrow> bool \<Rightarrow> string list \<Rightarrow> string list" where
  "token_commands expect_command skip_next_as_variable [] = []"
| "token_commands expect_command skip_next_as_variable (t # ts) =
     (let has_trailing_semicolon = endswith t '';'';
          token = (if has_trailing_semicolon then butlast t else t)
      in if has_trailing_semicolon \<and> token = [] then token_commands True skip_next_as_variable ts
         else if skip_next_as_variable then token_commands has_trailing_semicolon False ts
         else if token \<in> set shell_operators then token_commands True False ts
         else if token \<in> set [''for'', ''select''] then token_commands expect_command True ts
         else if token \<in> set shell_keywords then
           token_commands (if has_trailing_semicolon then True else expect_command) False ts
         else if startswith token ''-'' then
           token_commands (if has_trailing_semicolon then True else expect_command) False ts
         else if CHR ''='' \<in> set token \<and> \<not> startswith token ''='' then
           token_commands (if has_trailing_semicolon then True else expect_command) False ts
         else if expect_command then
           basename token # token_commands has_trailing_semicolon False ts
         else token_commands has_trailing_semicolon False ts)"

fun extract_segments :: "string list \<Rightarrow> string list \<Rightarrow> string list" where
  "extract_segments commands [] = commands"
| "extract_segments commands (seg # segs) =
     (let segment = py_strip seg
      in if segment = [] then extract_segments commands segs
         else case shlex_split segment of
                Inl e \<Rightarrow> []
              | Inr tokens \<Rightarrow>
                  if tokens = [] then extract_segments commands segs
                  else extract_segments (commands @ token_commands True False tokens) segs)"

definition extract_commands :: "string \<Rightarrow> string list" where
  "extract_commands command_string = extract_segments [] (re_split_semi command_string)"

text \<open>
  \<^verbatim>\<open>split_command_segments\<close>: split at \<^verbatim>\<open>&&\<close> and \<^verbatim>\<open>||\<close>, then at semicolons; the
  stripped, non-empty pieces.
\<close>

definition split_command_segments :: "string \<Rightarrow> string list" where
  "split_command_segments command_string =
     filter (\<lambda>sub. sub \<noteq> [])
       (map py_strip (concat (map re_split_semi (re_split_andor command_string))))"

section \<open>The substitution extractor\<close>

text \<open>
  The scan for the parenthesis that closes a \<^verbatim>\<open>$(\<close>: \<open>depth\<close>, the two quote flags and the
  previous character (the source reads \<^verbatim>\<open>command_string[j - 1:j + 1]\<close>). The result is
  the body \<^verbatim>\<open>command_string[start:j - 1]\<close> and the text after the closing parenthesis, or
  \<open>None\<close> when the string ends with \<open>depth > 0\<close>.
\<close>

definition keep :: "string \<Rightarrow> (string \<times> string) option \<Rightarrow> (string \<times> string) option" where
  "keep pre r = (case r of None \<Rightarrow> None | Some (inner, rest) \<Rightarrow> Some (pre @ inner, rest))"

text \<open>
  One round of the inner \<^verbatim>\<open>while\<close> loop at the character \<open>ch\<close>, followed by \<open>cs\<close>:
  the new depth and quote flags, and whether the round skipped a second character (the
  parenthesis of a nested \<^verbatim>\<open>$(\<close>).
\<close>

definition dollar_step ::
  "nat \<Rightarrow> bool \<Rightarrow> bool \<Rightarrow> char \<Rightarrow> char \<Rightarrow> string \<Rightarrow> nat \<times> bool \<times> bool \<times> bool" where
  "dollar_step depth in_single_quote in_double_quote prev ch cs =
     (if ch = SQ \<and> \<not> in_double_quote then (depth, \<not> in_single_quote, in_double_quote, False)
      else if ch = DQ \<and> \<not> in_single_quote then (depth, in_single_quote, \<not> in_double_quote, False)
      else if \<not> in_single_quote \<and> \<not> in_double_quote then
        (if ch = CHR ''('' \<and> prev \<noteq> CHR ''$'' then (depth + 1, in_single_quote, in_double_quote, False)
         else if ch = CHR ''$'' \<and> startswith cs ''('' then (depth + 1, in_single_quote, in_double_quote, True)
         else if ch = CHR '')'' then (depth - 1, in_single_quote, in_double_quote, False)
         else (depth, in_single_quote, in_double_quote, False))
      else (depth, in_single_quote, in_double_quote, False))"

fun dollar_body :: "nat \<Rightarrow> bool \<Rightarrow> bool \<Rightarrow> char \<Rightarrow> string \<Rightarrow> (string \<times> string) option" where
  "dollar_body depth in_single_quote in_double_quote prev [] = None"
| "dollar_body depth in_single_quote in_double_quote prev (ch # cs) =
     (case dollar_step depth in_single_quote in_double_quote prev ch cs of
        (depth', sq', dq', skipped) \<Rightarrow>
          if depth' = 0 then Some ([], cs)
          else if skipped then keep [ch, CHR ''(''] (dollar_body depth' sq' dq' (CHR ''('') (tl cs))
          else keep [ch] (dollar_body depth' sq' dq' ch cs))"

lemma dollar_step_skipped:
  "dollar_step depth sq dq prev ch cs = (depth', sq', dq', True) \<Longrightarrow> Suc (length (tl cs)) = length cs"
  by (cases cs) (auto simp: dollar_step_def split: if_splits)

lemma dollar_body_length:
  "dollar_body depth sq dq prev s = Some (inner, rest) \<Longrightarrow> length inner + length rest < length s"
proof (induction depth sq dq prev s arbitrary: inner rest rule: dollar_body.induct)
  case (1 depth sq dq prev)
  then show ?case by simp
next
  case (2 depth sq dq prev ch cs)
  obtain d' sq' dq' sk where st: "dollar_step depth sq dq prev ch cs = (d', sq', dq', sk)"
    by (cases "dollar_step depth sq dq prev ch cs") auto
  show ?case
  proof (cases "d' = 0")
    case True
    with st "2.prems" show ?thesis by simp
  next
    case False
    show ?thesis
    proof (cases sk)
      case True
      with st False "2.prems" obtain i where
        i: "dollar_body d' sq' dq' (CHR ''('') (tl cs) = Some (i, rest)" and inner: "inner = [ch, CHR ''(''] @ i"
        by (auto simp: keep_def split: option.splits)
      from i have "length i + length rest < length (tl cs)"
        using "2.IH"(1) st False True by simp
      moreover have "Suc (length (tl cs)) = length cs"
        using st True dollar_step_skipped by simp
      ultimately show ?thesis using inner by simp
    next
      case sk: False
      with st False "2.prems" obtain i where
        i: "dollar_body d' sq' dq' ch cs = Some (i, rest)" and inner: "inner = [ch] @ i"
        by (auto simp: keep_def split: option.splits)
      from i have "length i + length rest < length cs"
        using "2.IH"(2) st False sk by simp
      then show ?thesis using inner by simp
    qed
  qed
qed

text \<open>The outer loop over \<open>i\<close>: the bodies of the \<^verbatim>\<open>$(...)\<close> forms, in order.\<close>

function dollar_bodies :: "string \<Rightarrow> string list" where
  "dollar_bodies [] = []"
| "dollar_bodies (c # cs) =
     (if c = CHR ''$'' \<and> startswith cs ''('' then
        (case dollar_body 1 False False (CHR ''('') (tl cs) of
           Some (inner, rest) \<Rightarrow> inner # dollar_bodies rest
         | None \<Rightarrow> [])
      else dollar_bodies cs)"
  by pat_completeness auto
termination
proof (relation "measure length")
  fix c :: char and cs inner rest :: string and x2 :: "string \<times> string"
  assume "dollar_body 1 False False (CHR ''('') (tl cs) = Some x2" and "(inner, rest) = x2"
  then have "length inner + length rest < length (tl cs)"
    using dollar_body_length by metis
  then show "(rest, c # cs) \<in> measure length" by simp
qed auto

text \<open>
  The backtick pattern: the text between one backtick and the next, and on from after the
  closing one.
\<close>

abbreviation BT :: char where "BT \<equiv> CHR 0x60"

function backtick_bodies :: "string \<Rightarrow> string list" where
  "backtick_bodies s =
     (case dropWhile (\<lambda>c. c \<noteq> BT) s of
        [] \<Rightarrow> []
      | b # after \<Rightarrow>
          (case dropWhile (\<lambda>c. c \<noteq> BT) after of
             [] \<Rightarrow> []
           | b2 # rest \<Rightarrow> takeWhile (\<lambda>c. c \<noteq> BT) after # backtick_bodies rest))"
  by pat_completeness auto
termination
proof (relation "measure length")
  fix s after rest :: string and b b2 :: char
  assume a: "dropWhile (\<lambda>c. c \<noteq> BT) s = b # after"
    and b: "dropWhile (\<lambda>c. c \<noteq> BT) after = b2 # rest"
  have "length (b # after) \<le> length s"
    using a length_dropWhile_le [of "\<lambda>c. c \<noteq> BT" s] by simp
  moreover have "length (b2 # rest) \<le> length after"
    using b length_dropWhile_le [of "\<lambda>c. c \<noteq> BT" after] by simp
  ultimately show "(rest, s) \<in> measure length" by simp
qed auto

declare backtick_bodies.simps [simp del]

text \<open>
  Process substitutions: every \<^verbatim>\<open><(\<close> or \<^verbatim>\<open>>(\<close> of the string is a match; from its end
  the parentheses are counted, with no regard for quotes.
\<close>

fun proc_body :: "nat \<Rightarrow> string \<Rightarrow> string option" where
  "proc_body depth [] = None"
| "proc_body depth (ch # cs) =
     (if ch = CHR ''('' then map_option (Cons ch) (proc_body (depth + 1) cs)
      else if ch = CHR '')'' then
        (if depth = 1 then Some [] else map_option (Cons ch) (proc_body (depth - 1) cs))
      else map_option (Cons ch) (proc_body depth cs))"

fun proc_sub_bodies :: "string \<Rightarrow> string list" where
  "proc_sub_bodies [] = []"
| "proc_sub_bodies (c # cs) =
     (if (c = CHR ''<'' \<or> c = CHR ''>'') \<and> startswith cs ''('' then
        (case proc_body 1 (tl cs) of Some inner \<Rightarrow> [inner] | None \<Rightarrow> []) @ proc_sub_bodies (tl cs)
      else proc_sub_bodies cs)"

lemma dollar_bodies_shorter: "inner \<in> set (dollar_bodies s) \<Longrightarrow> length inner < length s"
proof (induction s rule: dollar_bodies.induct)
  case 1
  then show ?case by simp
next
  case (2 c cs)
  show ?case
  proof (cases "c = CHR ''$'' \<and> startswith cs ''(''")
    case False
    with 2 show ?thesis by auto
  next
    case True
    show ?thesis
    proof (cases "dollar_body 1 False False (CHR ''('') (tl cs)")
      case None
      with True "2.prems" show ?thesis by simp
    next
      case (Some r)
      obtain i rest where r: "r = (i, rest)" by (cases r)
      from Some r have len: "length i + length rest < length (tl cs)"
        using dollar_body_length by metis
      from True Some r "2.prems" have "inner = i \<or> inner \<in> set (dollar_bodies rest)" by simp
      then show ?thesis
      proof
        assume "inner = i"
        with len show ?thesis by simp
      next
        assume "inner \<in> set (dollar_bodies rest)"
        then have "length inner < length rest"
          using "2.IH"(1) True Some r by simp
        with len show ?thesis by simp
      qed
    qed
  qed
qed

lemma backtick_bodies_shorter: "inner \<in> set (backtick_bodies s) \<Longrightarrow> length inner < length s"
proof (induction s rule: backtick_bodies.induct)
  case (1 s)
  show ?case
  proof (cases "dropWhile (\<lambda>c. c \<noteq> BT) s")
    case Nil
    have "backtick_bodies s = []" by (subst backtick_bodies.simps) (simp only: Nil list.case)
    with "1.prems" show ?thesis by simp
  next
    case outer: (Cons b after)
    have l1: "length (b # after) \<le> length s"
      using outer length_dropWhile_le [of "\<lambda>c. c \<noteq> BT" s] by simp
    show ?thesis
    proof (cases "dropWhile (\<lambda>c. c \<noteq> BT) after")
      case Nil
      have "backtick_bodies s = []" by (subst backtick_bodies.simps) (simp only: outer Nil list.case)
      with "1.prems" show ?thesis by simp
    next
      case (Cons b2 rest)
      have l2: "length (b2 # rest) \<le> length after"
        using Cons length_dropWhile_le [of "\<lambda>c. c \<noteq> BT" after] by simp
      have l3: "length (takeWhile (\<lambda>c. c \<noteq> BT) after) \<le> length after"
        by (rule length_takeWhile_le)
      have "backtick_bodies s = takeWhile (\<lambda>c. c \<noteq> BT) after # backtick_bodies rest"
        by (subst backtick_bodies.simps) (simp only: outer Cons list.case)
      with "1.prems"
      have "inner = takeWhile (\<lambda>c. c \<noteq> BT) after \<or> inner \<in> set (backtick_bodies rest)"
        by simp
      then show ?thesis
      proof
        assume "inner = takeWhile (\<lambda>c. c \<noteq> BT) after"
        with l1 l3 show ?thesis by simp
      next
        assume "inner \<in> set (backtick_bodies rest)"
        then have "length inner < length rest"
          using "1.IH" [OF outer Cons] by simp
        with l1 l2 show ?thesis by simp
      qed
    qed
  qed
qed

lemma proc_body_length: "proc_body depth s = Some inner \<Longrightarrow> length inner < length s"
  by (induction depth s arbitrary: inner rule: proc_body.induct)
     (fastforce split: if_splits)+

lemma proc_sub_bodies_shorter: "inner \<in> set (proc_sub_bodies s) \<Longrightarrow> length inner < length s"
proof (induction s rule: proc_sub_bodies.induct)
  case 1
  then show ?case by simp
next
  case (2 c cs)
  have tl: "length (tl cs) \<le> length cs" by simp
  from "2.prems" consider
      (here) "proc_body 1 (tl cs) = Some inner"
    | (later) "inner \<in> set (proc_sub_bodies (tl cs))" "(c = CHR ''<'' \<or> c = CHR ''>'') \<and> startswith cs ''(''"
    | (skip) "inner \<in> set (proc_sub_bodies cs)" "\<not> ((c = CHR ''<'' \<or> c = CHR ''>'') \<and> startswith cs ''('')"
    by (auto split: if_splits option.splits)
  then show ?case
  proof cases
    case here
    then have "length inner < length (tl cs)" by (rule proc_body_length)
    with tl show ?thesis by simp
  next
    case later
    then have "length inner < length (tl cs)" using "2.IH"(1) by simp
    with tl show ?thesis by simp
  next
    case skip
    then have "length inner < length cs" using "2.IH"(2) by simp
    then show ?thesis by simp
  qed
qed

text \<open>
  \<^verbatim>\<open>extract_substitution_commands\<close>: for every body, the commands of the body and, by the
  recursive call, those of the substitutions inside it; first the \<^verbatim>\<open>$(...)\<close> bodies, then
  the backtick bodies, then the process substitutions. The interpreter's recursion limit
  is not modelled.
\<close>

definition substitution_bodies :: "string \<Rightarrow> string list" where
  "substitution_bodies command_string =
     dollar_bodies command_string @ backtick_bodies command_string @ proc_sub_bodies command_string"

lemma substitution_bodies_shorter:
  "inner \<in> set (substitution_bodies s) \<Longrightarrow> length inner < length s"
  unfolding substitution_bodies_def
  using dollar_bodies_shorter backtick_bodies_shorter proc_sub_bodies_shorter by auto

function extract_substitution_commands :: "string \<Rightarrow> string list" where
  "extract_substitution_commands command_string =
     concat (map (\<lambda>inner. extract_commands inner @ extract_substitution_commands inner)
       (substitution_bodies command_string))"
  by pat_completeness auto
termination
proof (relation "measure length")
  fix command_string inner :: string
  assume "inner \<in> set (substitution_bodies command_string)"
  then show "(inner, command_string) \<in> measure length"
    by (simp add: substitution_bodies_shorter)
qed simp

declare extract_substitution_commands.simps [simp del]

section \<open>More of Python's library\<close>

text \<open>
  \<^verbatim>\<open>str.upper\<close> and \<^verbatim>\<open>str.lower\<close> on code points below 256. The upper-case forms of
  U+00B5 and U+00FF lie beyond code point 255; the model leaves these two unchanged.
\<close>

definition upper_char :: "char \<Rightarrow> string" where
  "upper_char c =
     (let n = of_char c :: nat
      in if (97 \<le> n \<and> n \<le> 122) \<or> (224 \<le> n \<and> n \<le> 254 \<and> n \<noteq> 247) then [char_of (n - 32)]
         else if n = 223 then ''SS''
         else [c])"

definition py_upper :: "string \<Rightarrow> string" where
  "py_upper s = concat (map upper_char s)"

definition lower_char :: "char \<Rightarrow> char" where
  "lower_char c =
     (let n = of_char c :: nat
      in if (65 \<le> n \<and> n \<le> 90) \<or> (192 \<le> n \<and> n \<le> 222 \<and> n \<noteq> 215) then char_of (n + 32)
         else c)"

definition py_lower :: "string \<Rightarrow> string" where
  "py_lower s = map lower_char s"

text \<open>
  \<^verbatim>\<open>int(s)\<close> in base 10: surrounding whitespace, an optional sign, then digits with
  single underscores between them; \<open>None\<close> stands for \<^verbatim>\<open>ValueError\<close>. The limit on the
  number of digits of recent interpreters is not modelled.
\<close>

definition int_space :: "char \<Rightarrow> bool" where
  "int_space c = (c \<in> set [CHR 0x09, CHR 0x0A, CHR 0x0B, CHR 0x0C, CHR 0x0D, CHR 0x20,
     CHR 0x85, CHR 0xA0])"

definition is_digit :: "char \<Rightarrow> bool" where
  "is_digit c = (let n = of_char c :: nat in 48 \<le> n \<and> n \<le> 57)"

definition digit_val :: "char \<Rightarrow> int" where
  "digit_val c = int (of_char c) - 48"

fun digits_value :: "int \<Rightarrow> string \<Rightarrow> int option" where
  "digits_value acc [] = Some acc"
| "digits_value acc [c] = (if is_digit c then Some (10 * acc + digit_val c) else None)"
| "digits_value acc (c # d # ds) =
     (if is_digit c then digits_value (10 * acc + digit_val c) (d # ds)
      else if c = CHR ''_'' \<and> is_digit d then digits_value (10 * acc + digit_val d) ds
      else None)"

definition py_int :: "string \<Rightarrow> int option" where
  "py_int s =
     (let t = rev (dropWhile int_space (rev (dropWhile int_space s)));
          body = (if startswith t ''-'' \<or> startswith t ''+'' then tl t else t)
      in case body of
           [] \<Rightarrow> None
         | c # cs \<Rightarrow>
             if is_digit c
             then map_option (\<lambda>v. if startswith t ''-'' then - v else v) (digits_value (digit_val c) cs)
             else None)"

text \<open>
  \<^verbatim>\<open>sep.join(xs)\<close>, and the text an f-string prints for a set of plain words. Python
  iterates a set in an order it does not specify; the model prints the set in the order
  of the source's literal.
\<close>

fun py_join :: "string \<Rightarrow> string list \<Rightarrow> string" where
  "py_join sep [] = []"
| "py_join sep [x] = x"
| "py_join sep (x # y # ys) = x @ sep @ py_join sep (y # ys)"

definition py_repr :: "string \<Rightarrow> string" where
  "py_repr x = [SQ] @ x @ [SQ]"

definition py_set_repr :: "string list \<Rightarrow> string" where
  "py_set_repr xs = ''{'' @ py_join '', '' (map py_repr xs) @ ''}''"

section \<open>The validators\<close>

text \<open>Each validator returns \<^verbatim>\<open>(is_allowed, reason_if_blocked)\<close>.\<close>

type_synonym verdict = "bool \<times> string"

definition non_flags :: "string list \<Rightarrow> string list" where
  "non_flags tokens = filter (\<lambda>token. \<not> startswith token ''-'') tokens"

subsection \<open>pkill\<close>

definition allowed_process_names :: "string list" where
  "allowed_process_names =
     [''node'', ''npm'', ''npx'', ''vite'', ''next'', ''pnpm'', ''uvicorn'', ''java'']"

definition pkill_verdict :: "string \<Rightarrow> verdict" where
  "pkill_verdict target =
     (if target \<in> set allowed_process_names then (True, [])
      else (False, ''pkill only allowed for dev processes: '' @ py_set_repr allowed_process_names))"

text \<open>
  \<^verbatim>\<open>target.split()[0]\<close> is evaluated whenever the target contains a space; on a target
  that is all whitespace the list is empty and the index raises \<^verbatim>\<open>IndexError\<close>, which
  nothing catches.
\<close>

definition validate_pkill_command :: "string \<Rightarrow> py_error + verdict" where
  "validate_pkill_command command_string =
     (case shlex_split command_string of
        Inl e \<Rightarrow> Inr (False, ''Could not parse pkill command'')
      | Inr tokens \<Rightarrow>
          if tokens = [] then Inr (False, ''Empty pkill command'')
          else let args = non_flags (tl tokens)
               in if args = [] then Inr (False, ''pkill requires a process name'')
                  else let target = last args
                       in if CHR '' '' \<in> set target then
                            (case py_split target of
                               [] \<Rightarrow> Inl (IndexError ''list index out of range'')
                             | w # ws \<Rightarrow> Inr (pkill_verdict w))
                          else Inr (pkill_verdict target))"

subsection \<open>chmod\<close>

text \<open>
  \<^verbatim>\<open>re.match(r"^[ugoa]*\+x$", mode)\<close>; the \<^verbatim>\<open>$\<close> also matches before one final newline.
\<close>

definition chmod_mode_ok :: "string \<Rightarrow> bool" where
  "chmod_mode_ok mode =
     (let m = (if endswith mode [CHR 0x0A] then butlast mode else mode)
      in endswith m ''+x'' \<and> list_all (\<lambda>c. c \<in> set ''ugoa'') (take (length m - 2) m))"

text \<open>The loop over \<^verbatim>\<open>tokens[1:]\<close>: \<open>None\<close> when a flag is met, else the mode and the files.\<close>

fun chmod_scan :: "string option \<Rightarrow> string list \<Rightarrow> string list \<Rightarrow> (string option \<times> string list) option" where
  "chmod_scan mode files [] = Some (mode, files)"
| "chmod_scan mode files (token # ts) =
     (if startswith token ''-'' then None
      else if mode = None then chmod_scan (Some token) files ts
      else chmod_scan mode (files @ [token]) ts)"

definition validate_chmod_command :: "string \<Rightarrow> verdict" where
  "validate_chmod_command command_string =
     (case shlex_split command_string of
        Inl e \<Rightarrow> (False, ''Could not parse chmod command'')
      | Inr [] \<Rightarrow> (False, ''Not a chmod command'')
      | Inr (t0 # args) \<Rightarrow>
          if t0 \<noteq> ''chmod'' then (False, ''Not a chmod command'')
          else (case chmod_scan None [] args of
                  None \<Rightarrow> (False, ''chmod flags are not allowed'')
                | Some (None, files) \<Rightarrow> (False, ''chmod requires a mode'')
                | Some (Some mode, files) \<Rightarrow>
                    if files = [] then (False, ''chmod requires at least one file'')
                    else if \<not> chmod_mode_ok mode then
                      (False, ''chmod only allowed with +x mode, got: '' @ mode)
                    else (True, [])))"

subsection \<open>rm\<close>

definition rm_dangerous_patterns :: "string list" where
  "rm_dangerous_patterns =
     [''/*'', ''../*'', ''/..'', ''/.'', ''.*'', ''**/'', ''~/*'',
      ''/home'', ''/etc'', ''/usr'', ''/var'', ''/bin'', ''/sbin'', ''/lib'',
      ''/boot'', ''/dev'', ''/proc'', ''/sys'', ''/root'']"

definition rm_recursive_flag :: "string \<Rightarrow> bool" where
  "rm_recursive_flag token =
     (startswith token ''-'' \<and>
      (CHR ''r'' \<in> set token \<or> CHR ''R'' \<in> set token \<or> token = ''--recursive''))"

definition rm_dangerous :: "string \<Rightarrow> bool" where
  "rm_dangerous target =
     list_ex (\<lambda>pattern. target = pattern \<or> endswith target pattern \<or> startswith target pattern)
       rm_dangerous_patterns"

text \<open>The first loop over the targets; \<open>None\<close> when it ends without a return.\<close>

fun rm_check_targets :: "bool \<Rightarrow> string list \<Rightarrow> verdict option" where
  "rm_check_targets is_recursive [] = None"
| "rm_check_targets is_recursive (target # targets) =
     (if rm_dangerous target then
        Some (False, ''rm blocked: dangerous pattern '' @ py_repr target)
      else if is_recursive \<and> (startswith target ''.*'' \<or> contains target ''/..'') then
        Some (False, ''rm blocked: recursive deletion of hidden files/directories not allowed: '' @ target)
      else rm_check_targets is_recursive targets)"

text \<open>The second loop, run when \<^verbatim>\<open>is_recursive\<close>.\<close>

fun rm_check_wildcards :: "string list \<Rightarrow> verdict option" where
  "rm_check_wildcards [] = None"
| "rm_check_wildcards (target # targets) =
     (if CHR ''*'' \<in> set target then
        Some (False, ''rm blocked: recursive deletion with wildcard not allowed: '' @ target)
      else rm_check_wildcards targets)"

definition validate_rm_command :: "string \<Rightarrow> verdict" where
  "validate_rm_command command_string =
     (case shlex_split command_string of
        Inl e \<Rightarrow> (False, ''Could not parse rm command'')
      | Inr [] \<Rightarrow> (False, ''Not an rm command'')
      | Inr (t0 # args) \<Rightarrow>
          if t0 \<noteq> ''rm'' then (False, ''Not an rm command'')
          else let targets = non_flags args;
                   is_recursive = list_ex rm_recursive_flag args
               in if targets = [] then (False, ''rm requires at least one target'')
                  else (case rm_check_targets is_recursive targets of
                          Some v \<Rightarrow> v
                        | None \<Rightarrow>
                            (case (if is_recursive then rm_check_wildcards targets else None) of
                               Some v \<Rightarrow> v
                             | None \<Rightarrow> (True, []))))"

subsection \<open>rmdir\<close>

definition rmdir_dangerous_patterns :: "string list" where
  "rmdir_dangerous_patterns = [''/'', ''/*'', ''../*'', ''~'', ''~/*'', ''.'']"

fun rmdir_check_targets :: "string list \<Rightarrow> verdict" where
  "rmdir_check_targets [] = (True, [])"
| "rmdir_check_targets (target # targets) =
     (if target \<in> set rmdir_dangerous_patterns then
        (False, ''rmdir blocked: dangerous pattern '' @ py_repr target)
      else if contains target ''..'' \<and> \<not> startswith target ''./'' then
        (False, ''rmdir blocked: path traversal not allowed: '' @ target)
      else rmdir_check_targets targets)"

definition validate_rmdir_command :: "string \<Rightarrow> verdict" where
  "validate_rmdir_command command_string =
     (case shlex_split command_string of
        Inl e \<Rightarrow> (False, ''Could not parse rmdir command'')
      | Inr [] \<Rightarrow> (False, ''Not an rmdir command'')
      | Inr (t0 # args) \<Rightarrow>
          if t0 \<noteq> ''rmdir'' then (False, ''Not an rmdir command'')
          else if non_flags args = [] then (False, ''rmdir requires at least one target'')
          else rmdir_check_targets (non_flags args))"

subsection \<open>kill\<close>

definition allowed_signals :: "string list" where
  "allowed_signals =
     [''TERM'', ''KILL'', ''INT'', ''HUP'', ''USR1'', ''USR2'', ''QUIT'', ''STOP'', ''CONT'',
      ''15'', ''9'', ''2'', ''1'', ''10'', ''12'', ''3'', ''19'', ''18'',
      ''SIGTERM'', ''SIGKILL'', ''SIGINT'', ''SIGHUP'', ''SIGUSR1'', ''SIGUSR2'']"

text \<open>
  The \<^verbatim>\<open>while\<close> loop over the tokens after \<^verbatim>\<open>kill\<close>, with the last signal seen and the
  PIDs collected; \<open>None\<close> is the early return at \<^verbatim>\<open>-l\<close> or \<^verbatim>\<open>--list\<close>. Every token that
  starts with a dash is read as a signal.
\<close>

fun kill_scan :: "string option \<Rightarrow> string list \<Rightarrow> string list \<Rightarrow> (string option \<times> string list) option" where
  "kill_scan signal pids [] = Some (signal, pids)"
| "kill_scan signal pids [token] =
     (if startswith token ''-'' then
        (if token = ''-l'' \<or> token = ''--list'' then None
         else let sig = py_upper (tl token)
              in Some (if sig \<noteq> [] then Some sig else signal, pids))
      else Some (signal, pids @ [token]))"
| "kill_scan signal pids (token # next # ts) =
     (if startswith token ''-'' then
        (if token = ''-l'' \<or> token = ''--list'' then None
         else if token = ''-s'' then kill_scan (Some (py_upper next)) pids ts
         else let sig = py_upper (tl token)
              in kill_scan (if sig \<noteq> [] then Some sig else signal) pids (next # ts))
      else kill_scan signal (pids @ [token]) (next # ts))"

fun kill_check_pids :: "string list \<Rightarrow> verdict" where
  "kill_check_pids [] = (True, [])"
| "kill_check_pids (pid # pids) =
     (if startswith pid ''%'' then kill_check_pids pids
      else case py_int pid of
             None \<Rightarrow> kill_check_pids pids
           | Some pid_num \<Rightarrow>
               if pid_num = 1 then (False, ''kill blocked: cannot kill PID 1 (init)'')
               else if pid_num < 0 then
                 (False, ''kill blocked: negative PID (process group) not allowed: '' @ pid)
               else if pid_num < 100 then
                 (False, ''kill blocked: system process PID not allowed: '' @ pid)
               else kill_check_pids pids)"

text \<open>\<^verbatim>\<open>if signal and signal not in allowed_signals\<close>: the signal that is refused, if any.\<close>

definition rejected_signal :: "string option \<Rightarrow> string option" where
  "rejected_signal signal =
     (case signal of
        None \<Rightarrow> None
      | Some sig \<Rightarrow> if sig = [] \<or> sig \<in> set allowed_signals then None else Some sig)"

definition validate_kill_command :: "string \<Rightarrow> verdict" where
  "validate_kill_command command_string =
     (case shlex_split command_string of
        Inl e \<Rightarrow> (False, ''Could not parse kill command'')
      | Inr [] \<Rightarrow> (False, ''Not a kill command'')
      | Inr (t0 # args) \<Rightarrow>
          if t0 \<noteq> ''kill'' then (False, ''Not a kill command'')
          else (case kill_scan None [] args of
                  None \<Rightarrow> (True, [])
                | Some (signal, pids) \<Rightarrow>
                    if pids = [] then (False, ''kill requires at least one PID'')
                    else (case rejected_signal signal of
                            Some sig \<Rightarrow>
                              (False, ''kill blocked: signal '' @ py_repr sig
                                 @ '' not in allowed signals: '' @ py_set_repr allowed_signals)
                          | None \<Rightarrow> kill_check_pids pids)))"

subsection \<open>docker, systemctl and the lifecycle scripts\<close>

definition docker_system_dirs :: "string list" where
  "docker_system_dirs = [''/'', ''/home'', ''/etc'', ''/usr'', ''/var'']"

fun docker_scan :: "string list \<Rightarrow> verdict" where
  "docker_scan [] = (True, [])"
| "docker_scan [token] = (True, [])"
| "docker_scan (token # volume_spec # ts) =
     (if token \<in> set [''-v'', ''--volume''] \<and> CHR '':'' \<in> set volume_spec
         \<and> takeWhile (\<lambda>c. c \<noteq> CHR '':'') volume_spec \<in> set docker_system_dirs
      then (False, ''Docker volume mount of system directory not allowed: ''
              @ takeWhile (\<lambda>c. c \<noteq> CHR '':'') volume_spec)
      else docker_scan (volume_spec # ts))"

definition validate_docker_command :: "string \<Rightarrow> verdict" where
  "validate_docker_command command_string =
     (case shlex_split command_string of
        Inl e \<Rightarrow> (False, ''Could not parse docker command'')
      | Inr [] \<Rightarrow> (False, ''Not a docker command'')
      | Inr (t0 # args) \<Rightarrow>
          if t0 \<noteq> ''docker'' then (False, ''Not a docker command'')
          else docker_scan (t0 # args))"

definition allowed_operations :: "string list" where
  "allowed_operations =
     [''status'', ''show'', ''list-units'', ''list-unit-files'', ''is-active'', ''is-enabled'']"

definition validate_systemctl_command :: "string \<Rightarrow> verdict" where
  "validate_systemctl_command command_string =
     (case shlex_split command_string of
        Inl e \<Rightarrow> (False, ''Could not parse systemctl command'')
      | Inr [] \<Rightarrow> (False, ''Not a systemctl command'')
      | Inr (t0 # args) \<Rightarrow>
          if t0 \<noteq> ''systemctl'' then (False, ''Not a systemctl command'')
          else (case non_flags args of
                  [] \<Rightarrow>
                    (False, ''systemctl operation '' @ py_repr ''None'' @ '' not allowed (only ''
                       @ py_set_repr allowed_operations @ '' permitted)'')
                | operation # others \<Rightarrow>
                    if operation \<in> set allowed_operations then (True, [])
                    else (False, ''systemctl operation '' @ py_repr operation @ '' not allowed (only ''
                       @ py_set_repr allowed_operations @ '' permitted)'')))"

definition validate_init_script :: "string \<Rightarrow> verdict" where
  "validate_init_script command_string =
     (case shlex_split command_string of
        Inl e \<Rightarrow> (False, ''Could not parse environment setup script command'')
      | Inr [] \<Rightarrow> (False, ''Empty command'')
      | Inr (script # args) \<Rightarrow>
          if script = ''./start.sh'' \<or> endswith script ''/start.sh''
             \<or> script = ''./restart.sh'' \<or> endswith script ''/restart.sh''
             \<or> script = ''./stop.sh'' \<or> endswith script ''/stop.sh''
          then (True, [])
          else (False, ''Only ./start.sh, ./restart.sh, ./stop.sh is allowed, got: '' @ script))"

section \<open>Paths\<close>

text \<open>
  What the module asks of the operating system is a parameter of the model:
  \<^item> \<open>user_home name\<close>: the home directory \<^verbatim>\<open>os.path.expanduser\<close> finds for the user
    \<open>name\<close> (the empty name is the current user), \<open>None\<close> when there is none;
  \<^item> \<open>resolve p\<close>: \<^verbatim>\<open>Path(p).resolve()\<close>, the canonical absolute path as the list of its
    components, or the exception raised;
  \<^item> \<open>resolve_under d p\<close>: \<^verbatim>\<open>(d / p).resolve()\<close> for a relative \<open>p\<close>.

  The exception a resolution raises is whatever the environment says: \<^verbatim>\<open>ValueError\<close> for a
  path with a null character, \<^verbatim>\<open>OSError\<close> for a failing system call, and, in CPython 3.11,
  \<^verbatim>\<open>RuntimeError\<close> for a loop of symbolic links.
\<close>

record env =
  user_home :: "string \<Rightarrow> string option"
  resolve :: "string \<Rightarrow> py_error + string list"
  resolve_under :: "string \<Rightarrow> string \<Rightarrow> py_error + string list"

text \<open>
  \<^verbatim>\<open>os.path.expanduser\<close>. The user name is what stands between the tilde and the first
  slash. A name that is not empty is looked up with \<^verbatim>\<open>pwd.getpwnam\<close>, which raises
  \<^verbatim>\<open>ValueError\<close> when the name has a null character; the \<^verbatim>\<open>KeyError\<close> of an unknown
  user is caught by \<^verbatim>\<open>expanduser\<close> itself, which then returns the path unchanged. The
  empty name is the current user and is not looked up by name.
\<close>

definition user_name :: "string \<Rightarrow> string" where
  "user_name path = takeWhile (\<lambda>c. c \<noteq> CHR ''/'') (tl path)"

definition expanduser :: "env \<Rightarrow> string \<Rightarrow> py_error + string" where
  "expanduser e path =
     (if \<not> startswith path ''~'' then Inr path
      else if user_name path \<noteq> [] \<and> CHR 0x00 \<in> set (user_name path) then
        Inl (ValueError ''embedded null byte'')
      else case user_home e (user_name path) of
             None \<Rightarrow> Inr path
           | Some userhome \<Rightarrow>
               (let r = rev (dropWhile (\<lambda>c. c = CHR ''/'') (rev userhome))
                        @ dropWhile (\<lambda>c. c \<noteq> CHR ''/'') (tl path)
                in Inr (if r = [] then ''/'' else r)))"

text \<open>\<^verbatim>\<open>str\<close> of a resolved path, and \<^verbatim>\<open>relative_to\<close> succeeding.\<close>

definition path_str :: "string list \<Rightarrow> string" where
  "path_str parts = ''/'' @ py_join ''/'' parts"

definition is_relative_to :: "string list \<Rightarrow> string list \<Rightarrow> bool" where
  "is_relative_to p base = (take (length base) p = base)"

subsection \<open>validate_path_within_project\<close>

definition cannot_validate :: "string \<Rightarrow> string \<Rightarrow> verdict" where
  "cannot_validate path msg = (False, ''Cannot validate path '' @ py_repr path @ '': '' @ msg)"

text \<open>The \<^verbatim>\<open>except (ValueError, OSError)\<close> clause: other exceptions pass through.\<close>

definition catch_path_errors :: "string \<Rightarrow> py_error + verdict \<Rightarrow> py_error + verdict" where
  "catch_path_errors path r =
     (case r of
        Inl (ValueError msg) \<Rightarrow> Inr (cannot_validate path msg)
      | Inl (OSError msg) \<Rightarrow> Inr (cannot_validate path msg)
      | Inl e \<Rightarrow> Inl e
      | Inr v \<Rightarrow> Inr v)"

definition try_bind :: "py_error + 'a \<Rightarrow> ('a \<Rightarrow> py_error + 'b) \<Rightarrow> py_error + 'b" where
  "try_bind r f = (case r of Inl e \<Rightarrow> Inl e | Inr v \<Rightarrow> f v)"

definition escapes_reason :: "string \<Rightarrow> string list \<Rightarrow> string list \<Rightarrow> string \<Rightarrow> string" where
  "escapes_reason path path_resolved project_resolved operation =
     ''Path escapes project directory: '' @ py_repr path @ '' resolves to ''
       @ py_repr (path_str path_resolved) @ '' which is outside '' @ py_repr (path_str project_resolved)
       @ ''. '' @ operation @ '' denied for security.''"

definition within_project :: "string \<Rightarrow> string list \<Rightarrow> string list \<Rightarrow> string \<Rightarrow> verdict" where
  "within_project path path_resolved project_resolved operation =
     (if is_relative_to path_resolved project_resolved then (True, [])
      else (False, escapes_reason path path_resolved project_resolved operation))"

text \<open>
  The path the check is about: home shorthand expanded, a relative path taken under the
  project directory, then resolved.
\<close>

definition resolve_path :: "env \<Rightarrow> string \<Rightarrow> string \<Rightarrow> py_error + string list" where
  "resolve_path e project_dir path =
     try_bind (expanduser e path) (\<lambda>expanded_path.
       if startswith expanded_path ''/'' then resolve e expanded_path
       else resolve_under e project_dir expanded_path)"

definition validate_path_within_project ::
  "env \<Rightarrow> string \<Rightarrow> string \<Rightarrow> string \<Rightarrow> bool \<Rightarrow> py_error + verdict" where
  "validate_path_within_project e path project_dir operation allow_tmp =
     (if path = [] then Inr (False, ''Invalid path type: <class '' @ py_repr ''str'' @ ''>'')
      else catch_path_errors path
        (try_bind (resolve e project_dir) (\<lambda>project_resolved.
         try_bind (resolve_path e project_dir path) (\<lambda>path_resolved.
         if allow_tmp then
           try_bind (resolve e ''/tmp'') (\<lambda>tmp_dir.
             if is_relative_to path_resolved tmp_dir then Inr (True, [])
             else Inr (within_project path path_resolved project_resolved operation))
         else Inr (within_project path path_resolved project_resolved operation)))))"

text \<open>
  Whether a path validates within the project directory or \<^verbatim>\<open>/tmp\<close>: the first component
  of the verdict, which does not depend on the operation the reason names.
\<close>

definition path_verdict :: "env \<Rightarrow> string \<Rightarrow> string \<Rightarrow> py_error + bool" where
  "path_verdict e project_dir path =
     (case validate_path_within_project e path project_dir [] True of
        Inl err \<Rightarrow> Inl err
      | Inr v \<Rightarrow> Inr (fst v))"

subsection \<open>validate_cp_source_path\<close>

text \<open>
  The sensitive paths, in the order of the source's set literal (the order in which
  Python visits the set decides only which reason is reported when several entries match).
\<close>

definition SENSITIVE_SYSTEM_DIRECTORIES :: "string list" where
  "SENSITIVE_SYSTEM_DIRECTORIES =
     [''/etc/passwd'', ''/etc/shadow'', ''/etc/sudoers'', ''/etc/ssh'',
      ''/etc/ssl'', ''/etc/pki'', ''/etc/security'',
      ''/root'', ''/home'',
      ''/var/log'', ''/var/run'', ''/var/spool'',
      ''/proc'', ''/sys'', ''/dev'',
      ''/boot'', ''/lib/firmware'',
      ''~/.ssh'', ''~/.gnupg'', ''~/.aws'', ''~/.config'',
      ''.env'', ''.git/config'', ''credentials'', ''secrets'']"

text \<open>
  One round of the loop, once both paths are expanded: the verdict it returns, if it
  returns.
\<close>

definition sensitive_hit :: "string \<Rightarrow> string \<Rightarrow> string \<Rightarrow> string \<Rightarrow> verdict option" where
  "sensitive_hit source_path expanded_path sensitive expanded_sensitive =
     (if expanded_path = expanded_sensitive then
        Some (False, ''cp blocked: cannot copy from sensitive path '' @ py_repr source_path)
      else if startswith expanded_path (expanded_sensitive @ ''/'') then
        Some (False, ''cp blocked: cannot copy from sensitive directory '' @ py_repr sensitive)
      else if sensitive \<in> set [''credentials'', ''secrets'', ''.env'']
           \<and> contains (py_lower source_path) sensitive
           \<and> \<not> startswith (py_lower source_path) ''./''
           \<and> (startswith source_path ''/'' \<or> startswith source_path ''~'') then
        Some (False, ''cp blocked: cannot copy sensitive file pattern '' @ py_repr source_path)
      else None)"

fun sensitive_loop :: "env \<Rightarrow> string \<Rightarrow> string \<Rightarrow> string list \<Rightarrow> py_error + verdict" where
  "sensitive_loop e source_path expanded_path [] = Inr (True, [])"
| "sensitive_loop e source_path expanded_path (sensitive # rest) =
     (case expanduser e sensitive of
        Inl err \<Rightarrow> Inl err
      | Inr expanded_sensitive \<Rightarrow>
          (case sensitive_hit source_path expanded_path sensitive expanded_sensitive of
             Some v \<Rightarrow> Inr v
           | None \<Rightarrow> sensitive_loop e source_path expanded_path rest))"

text \<open>
  Neither call of \<^verbatim>\<open>os.path.expanduser\<close> stands in a \<^verbatim>\<open>try\<close>: the function raises what the
  expansion raises.
\<close>

definition validate_cp_source_path :: "env \<Rightarrow> string \<Rightarrow> py_error + verdict" where
  "validate_cp_source_path e source_path =
     (if source_path = [] then Inr (False, ''Empty source path'')
      else try_bind (expanduser e source_path) (\<lambda>expanded_path.
             sensitive_loop e source_path expanded_path SENSITIVE_SYSTEM_DIRECTORIES))"

text \<open>Whether a source passes the deny-list: the first component of the verdict.\<close>

definition cp_source_verdict :: "env \<Rightarrow> string \<Rightarrow> py_error + bool" where
  "cp_source_verdict e source_path =
     (case validate_cp_source_path e source_path of
        Inl err \<Rightarrow> Inl err
      | Inr v \<Rightarrow> Inr (fst v))"

section \<open>The path extractor\<close>

definition file_operation_commands :: "string list" where
  "file_operation_commands =
     [''cat'', ''cp'', ''mv'', ''rm'', ''rmdir'', ''mkdir'', ''chmod'',
      ''touch'', ''ls'', ''find'', ''head'', ''tail'', ''tee'', ''stat'',
      ''grep'', ''awk'', ''wc'', ''ln'']"

text \<open>The dictionary \<^verbatim>\<open>output_commands\<close>, as the list of its items.\<close>

definition output_commands :: "(string \<times> string list) list" where
  "output_commands =
     [(''curl'', [''-o'', ''--output'', ''-O'']),
      (''wget'', [''-O'', ''--output-document'']),
      (''unzip'', [''-d'']),
      (''jar'', [''-C'']),
      (''git'', [''clone'', ''--work-tree'', ''--git-dir''])]"

definition script_commands :: "string list" where
  "script_commands = [''python'', ''python3'', ''node'', ''java'', ''bash'', ''sh'']"

definition positional_path :: "string \<Rightarrow> string \<Rightarrow> string list" where
  "positional_path cmd token =
     (if \<not> startswith token ''-'' \<and> cmd \<in> set [''unzip'', ''jar'']
         \<and> (CHR ''/'' \<in> set token \<or> startswith token ''.'')
      then [token] else [])"

fun output_scan :: "string \<Rightarrow> string list \<Rightarrow> string list \<Rightarrow> string list" where
  "output_scan cmd output_flags [] = []"
| "output_scan cmd output_flags [token] = positional_path cmd token"
| "output_scan cmd output_flags (token # next # ts) =
     (if token \<in> set output_flags then next # output_scan cmd output_flags ts
      else positional_path cmd token @ output_scan cmd output_flags (next # ts))"

text \<open>The branch for \<^verbatim>\<open>git\<close>, which follows the test for the keys of \<^verbatim>\<open>output_commands\<close>.\<close>

fun git_scan :: "string list \<Rightarrow> string list" where
  "git_scan (token # url # dest # ts) =
     (if token = ''clone'' then (if \<not> startswith dest ''-'' then [dest] else []) @ git_scan ts
      else if token \<in> set [''--work-tree'', ''--git-dir''] then url # git_scan (dest # ts)
      else git_scan (url # dest # ts))"
| "git_scan [token, next] =
     (if token \<in> set [''--work-tree'', ''--git-dir''] then [next] else [])"
| "git_scan ts = []"

definition script_paths :: "string list \<Rightarrow> string list" where
  "script_paths args =
     (case non_flags args of
        [] \<Rightarrow> []
      | token # others \<Rightarrow>
          if CHR ''/'' \<in> set token \<or> startswith token ''.'' \<or> startswith token ''~''
          then [token] else [])"

definition is_path :: "string \<Rightarrow> string \<Rightarrow> bool" where
  "is_path cmd token =
     (startswith token ''/'' \<or> startswith token ''~/'' \<or> startswith token ''./''
      \<or> startswith token ''../'' \<or> CHR ''/'' \<in> set token
      \<or> (\<not> startswith token ''-''
          \<and> cmd \<in> set [''rm'', ''rmdir'', ''mkdir'', ''chmod'', ''touch'', ''ln'']))"

fun file_scan :: "string \<Rightarrow> bool \<Rightarrow> string list \<Rightarrow> string list" where
  "file_scan cmd skip_next [] = []"
| "file_scan cmd skip_next (token # ts) =
     (if skip_next then file_scan cmd False ts
      else if startswith token ''-'' then file_scan cmd False ts
      else if token \<in> set [''>'', ''>>'', ''<'', ''|'', ''2>'', ''&>'', ''2>&1''] then file_scan cmd True ts
      else if is_path cmd token then token # file_scan cmd False ts
      else file_scan cmd False ts)"

fun redirect_targets :: "string list \<Rightarrow> string list" where
  "redirect_targets (token # next # ts) =
     (if token \<in> set [''>'', ''>>''] then next # redirect_targets (next # ts)
      else redirect_targets (next # ts))"
| "redirect_targets ts = []"

definition extract_file_paths_from_command :: "string \<Rightarrow> string list" where
  "extract_file_paths_from_command command_string =
     (case shlex_split command_string of
        Inl e \<Rightarrow> []
      | Inr [] \<Rightarrow> []
      | Inr (t0 # args) \<Rightarrow>
          (let cmd = basename t0
           in (case map_of output_commands cmd of
                 Some output_flags \<Rightarrow> output_scan cmd output_flags args
               | None \<Rightarrow>
                   if cmd = ''git'' then git_scan args
                   else if cmd \<in> set script_commands then script_paths args
                   else if cmd \<in> set file_operation_commands then file_scan cmd False args
                   else [])
              @ redirect_targets (t0 # args)))"

section \<open>The hook\<close>

definition ALLOWED_COMMANDS :: "string list" where
  "ALLOWED_COMMANDS =
     [''ls'', ''cat'', ''find'', ''head'', ''tail'', ''wc'', ''grep'', ''awk'', ''tee'', ''stat'', ''tree'',
      ''touch'', ''cp'', ''mkdir'', ''chmod'', ''rm'', ''rmdir'', ''mv'',
      ''pwd'',
      ''npm'', ''node'', ''pnpm'', ''sort'', ''npx'', ''vite'', ''next'', ''tsc'', ''eslint'', ''jest'', ''vitest'',
      ''gradle'', ''gradlew'', ''java'', ''mvn'', ''mvnw'',
      ''python'', ''pip'', ''uv'', ''uvx'', ''ruff'', ''mypy'', ''uvicorn'', ''pylint'', ''flake8'', ''pytest'',
      ''docker'', ''kubectl'',
      ''cargo'', ''rustc'',
      ''go'',
      ''swift'', ''xcodebuild'',
      ''sonar-scanner'', ''swiftlint'', ''clippy'', ''golangci-lint'',
      ''psql'', ''mysql'',
      ''curl'',
      ''git'',
      ''ps'', ''lsof'', ''sleep'', ''nohup'', ''pkill'', ''kill'', ''systemctl'', ''source'', ''tr'',
      ''journalctl'', ''netstat'',
      ''ac'', ''ac-msg'',
      ''jq'',
      ''read'', ''test'', ''true'', ''false'', ''printf'',
      ''date'', ''basename'', ''dirname'', ''cut'', ''sed'', ''diff'', ''realpath'', ''readlink'',
      ''mktemp'', ''id'', ''seq'',
      ''echo'', ''which'', ''jar'', ''unzip'',
      ''start.sh'', ''stop.sh'', ''restart.sh'', ''shutdown.sh'', ''startup.sh'', ''build.sh'',
      ''kcadm.sh'', ''kc.sh'']"

definition COMMANDS_NEEDING_EXTRA_VALIDATION :: "string list" where
  "COMMANDS_NEEDING_EXTRA_VALIDATION =
     [''pkill'', ''chmod'', ''start.sh'', ''restart.sh'', ''stop.sh'', ''docker'', ''systemctl'',
      ''rm'', ''rmdir'', ''kill'']"

text \<open>The result of the hook: \<^verbatim>\<open>{}\<close> or \<^verbatim>\<open>{"decision": "block", "reason": ...}\<close>.\<close>

datatype decision = Allow | Block string

text \<open>\<^verbatim>\<open>get_command_for_validation\<close>: the first segment whose commands contain \<open>cmd\<close>.\<close>

fun get_command_for_validation :: "string \<Rightarrow> string list \<Rightarrow> string" where
  "get_command_for_validation cmd [] = []"
| "get_command_for_validation cmd (segment # segments) =
     (if cmd \<in> set (extract_commands segment) then segment
      else get_command_for_validation cmd segments)"

text \<open>The chain of \<^verbatim>\<open>if\<close>/\<^verbatim>\<open>elif\<close> that picks a command's validator.\<close>

definition extra_validation :: "string \<Rightarrow> string \<Rightarrow> py_error + verdict" where
  "extra_validation cmd cmd_segment =
     (if cmd = ''pkill'' then validate_pkill_command cmd_segment
      else if cmd = ''chmod'' then Inr (validate_chmod_command cmd_segment)
      else if cmd \<in> set [''start.sh'', ''restart.sh'', ''stop.sh''] then Inr (validate_init_script cmd_segment)
      else if cmd = ''docker'' then Inr (validate_docker_command cmd_segment)
      else if cmd = ''systemctl'' then Inr (validate_systemctl_command cmd_segment)
      else if cmd = ''rm'' then Inr (validate_rm_command cmd_segment)
      else if cmd = ''rmdir'' then Inr (validate_rmdir_command cmd_segment)
      else if cmd = ''kill'' then Inr (validate_kill_command cmd_segment)
      else Inr (True, []))"

definition not_allowed_reason :: "string \<Rightarrow> string" where
  "not_allowed_reason cmd = ''Command '' @ py_repr cmd @ '' is not in the allowed commands list.''"

text \<open>The segment a command's validator is given: the one found, or the whole command.\<close>

definition validation_segment :: "string \<Rightarrow> string \<Rightarrow> string list \<Rightarrow> string" where
  "validation_segment cmd command segments =
     (if get_command_for_validation cmd segments = [] then command
      else get_command_for_validation cmd segments)"

text \<open>
  The loop over the commands: \<open>Inr (Some d)\<close> when it returns the decision \<open>d\<close>,
  \<open>Inr None\<close> when it ends, \<open>Inl\<close> when a validator raises.
\<close>

fun check_commands :: "string \<Rightarrow> string list \<Rightarrow> string list \<Rightarrow> py_error + decision option" where
  "check_commands command segments [] = Inr None"
| "check_commands command segments (cmd # cmds) =
     (if cmd \<in> set ALLOWED_COMMANDS then
        (if cmd \<in> set COMMANDS_NEEDING_EXTRA_VALIDATION then
           (case extra_validation cmd (validation_segment cmd command segments) of
              Inl e \<Rightarrow> Inl e
            | Inr (allowed, reason) \<Rightarrow>
                if allowed then check_commands command segments cmds
                else Inr (Some (Block reason)))
         else check_commands command segments cmds)
      else Inr (Some (Block (not_allowed_reason cmd))))"

definition blocked :: "string \<Rightarrow> string \<Rightarrow> string \<Rightarrow> decision" where
  "blocked prefix reason command =
     Block (''Bash command blocked: '' @ prefix @ reason @ [CHR 0x0A] @ ''Command: '' @ command)"

text \<open>A loop that validates each path and blocks at the first that fails.\<close>

fun check_paths ::
  "env \<Rightarrow> string \<Rightarrow> string \<Rightarrow> string \<Rightarrow> string \<Rightarrow> string list \<Rightarrow> py_error + decision" where
  "check_paths e project_dir operation prefix command [] = Inr Allow"
| "check_paths e project_dir operation prefix command (path # paths) =
     (case validate_path_within_project e path project_dir operation True of
        Inl err \<Rightarrow> Inl err
      | Inr (is_valid, reason) \<Rightarrow>
          if is_valid then check_paths e project_dir operation prefix command paths
          else Inr (blocked prefix reason command))"

fun check_cp_sources :: "env \<Rightarrow> string \<Rightarrow> string \<Rightarrow> string list \<Rightarrow> py_error + decision" where
  "check_cp_sources e project_dir command [] = Inr Allow"
| "check_cp_sources e project_dir command (src # sources) =
     (case validate_path_within_project e src project_dir ''cp source path'' True of
        Inl err \<Rightarrow> Inl err
      | Inr (is_valid, reason) \<Rightarrow>
          if is_valid then check_cp_sources e project_dir command sources
          else (case validate_cp_source_path e src of
                  Inl err \<Rightarrow> Inl err
                | Inr (ok, reason2) \<Rightarrow>
                    if ok then check_cp_sources e project_dir command sources
                    else Inr (blocked [] reason2 command)))"

definition cp_mv_paths :: "string list \<Rightarrow> string list" where
  "cp_mv_paths tokens =
     filter (\<lambda>t. \<not> (startswith t ''-'' \<or> t \<in> set [''>'', ''>>'', ''<'', ''|''])) (tl tokens)"

text \<open>The body of the \<^verbatim>\<open>try\<close> block, once the command is split into tokens.\<close>

definition check_cp_mv_tokens ::
  "env \<Rightarrow> string \<Rightarrow> string \<Rightarrow> string \<Rightarrow> string list \<Rightarrow> py_error + decision" where
  "check_cp_mv_tokens e cmd_base command project_dir tokens =
     (if 2 \<le> length (cp_mv_paths tokens) then
        (case validate_path_within_project e (last (cp_mv_paths tokens)) project_dir
                ''Destination path'' True of
           Inl err \<Rightarrow> Inl err
         | Inr (is_valid, reason) \<Rightarrow>
             if is_valid then
               (if cmd_base = ''mv'' then
                  check_paths e project_dir ''Source path (mv)'' ''mv source '' command
                    (butlast (cp_mv_paths tokens))
                else check_cp_sources e project_dir command (butlast (cp_mv_paths tokens)))
             else Inr (blocked [] reason command))
      else Inr Allow)"

text \<open>
  The clause \<^verbatim>\<open>except ValueError: pass\<close>, after which the hook returns the empty
  dictionary: a \<^verbatim>\<open>ValueError\<close> raised anywhere in the block allows the command; any other
  exception passes through.
\<close>

definition except_value_error :: "py_error + decision \<Rightarrow> py_error + decision" where
  "except_value_error r =
     (case r of
        Inl (ValueError msg) \<Rightarrow> Inr Allow
      | Inl err \<Rightarrow> Inl err
      | Inr d \<Rightarrow> Inr d)"

definition check_cp_mv :: "env \<Rightarrow> string \<Rightarrow> string \<Rightarrow> string \<Rightarrow> py_error + decision" where
  "check_cp_mv e cmd_base command project_dir =
     except_value_error
       (try_bind (shlex_split command) (check_cp_mv_tokens e cmd_base command project_dir))"

definition path_check :: "env \<Rightarrow> string \<Rightarrow> string list \<Rightarrow> string \<Rightarrow> py_error + decision" where
  "path_check e command commands project_dir =
     (case commands of
        [] \<Rightarrow> check_paths e project_dir ''File operation'' [] command
                (extract_file_paths_from_command command)
      | c # cs \<Rightarrow>
          if basename c \<in> set [''cp'', ''mv''] then check_cp_mv e (basename c) command project_dir
          else check_paths e project_dir ''File operation'' [] command
                 (extract_file_paths_from_command command))"

text \<open>
  The input of the hook: \<^verbatim>\<open>input_data.get("tool_name")\<close> and
  \<^verbatim>\<open>input_data.get("tool_input", {}).get("command", "")\<close>, each \<open>None\<close> when the key is
  missing; \<open>ctx\<close> is the project directory of the context, \<open>None\<close> when there is no context or it
  has no \<^verbatim>\<open>project_dir\<close>.
\<close>

record hook_input =
  tool_name :: "string option"
  tool_command :: "string option"

definition check_command :: "env \<Rightarrow> string \<Rightarrow> string option \<Rightarrow> py_error + decision" where
  "check_command e command ctx =
     (let commands = extract_commands command @ extract_substitution_commands command
      in if commands = [] then
           Inr (Block (''Could not parse command for security validation: '' @ command))
         else (case check_commands command (split_command_segments command) commands of
                 Inl err \<Rightarrow> Inl err
               | Inr (Some d) \<Rightarrow> Inr d
               | Inr None \<Rightarrow>
                   (case ctx of
                      None \<Rightarrow> Inr Allow
                    | Some project_dir \<Rightarrow> path_check e command commands project_dir)))"

definition bash_security_hook :: "env \<Rightarrow> hook_input \<Rightarrow> string option \<Rightarrow> py_error + decision" where
  "bash_security_hook e input_data ctx =
     (if tool_name input_data = Some ''Bash'' then
        (case tool_command input_data of
           None \<Rightarrow> Inr Allow
         | Some command \<Rightarrow>
             if command = [] then Inr Allow else check_command e command ctx)
      else Inr Allow)"

text \<open>A call of the hook on the Bash tool with the command \<open>c\<close>.\<close>

definition bash :: "string \<Rightarrow> hook_input" where
  "bash c = \<lparr>tool_name = Some ''Bash'', tool_command = Some c\<rparr>"

section \<open>An environment without symbolic links\<close>

text \<open>
  A machine on which the hook can be run: no path is a symbolic link, so a path resolves
  to its components with \<^verbatim>\<open>.\<close> dropped and \<^verbatim>\<open>..\<close> applied; resolving a path with a null
  character raises \<^verbatim>\<open>ValueError\<close>; the current user's home is \<^verbatim>\<open>/home/agent\<close> and no other
  user is known.
\<close>

fun split_slash :: "string \<Rightarrow> string \<Rightarrow> string list" where
  "split_slash name [] = [name]"
| "split_slash name (c # cs) =
     (if c = CHR ''/'' then name # split_slash [] cs else split_slash (name @ [c]) cs)"

definition lexical_step :: "string list \<Rightarrow> string \<Rightarrow> string list" where
  "lexical_step parts name =
     (if name = [] \<or> name = ''.'' then parts
      else if name = ''..'' then butlast parts
      else parts @ [name])"

definition lexical_resolve :: "string \<Rightarrow> string list" where
  "lexical_resolve p = foldl lexical_step [] (split_slash [] p)"

definition posix_resolve :: "string \<Rightarrow> py_error + string list" where
  "posix_resolve p =
     (if CHR 0x00 \<in> set p then Inl (ValueError ''embedded null byte'')
      else Inr (lexical_resolve p))"

definition plain_env :: env where
  "plain_env =
     \<lparr>user_home = (\<lambda>name. if name = [] then Some ''/home/agent'' else None),
      resolve = posix_resolve,
      resolve_under = (\<lambda>d p. posix_resolve (d @ ''/'' @ p))\<rparr>"

text \<open>
  The same machine with a loop of symbolic links at every path that has a component named
  \<^verbatim>\<open>loop\<close>. In CPython 3.11 \<^verbatim>\<open>Path.resolve\<close> turns the \<^verbatim>\<open>ELOOP\<close> error of such a path into
  \<^verbatim>\<open>RuntimeError("Symlink loop from ...")\<close>, which is not an \<^verbatim>\<open>OSError\<close>.
\<close>

definition resolve_or_loop :: "string \<Rightarrow> py_error + string list" where
  "resolve_or_loop p =
     (if CHR 0x00 \<in> set p then Inl (ValueError ''embedded null byte'')
      else if ''loop'' \<in> set (split_slash [] p) then
        Inl (RuntimeError (''Symlink loop from '' @ py_repr (path_str (lexical_resolve p))))
      else Inr (lexical_resolve p))"

definition loop_env :: env where
  "loop_env =
     \<lparr>user_home = (\<lambda>name. if name = [] then Some ''/home/agent'' else None),
      resolve = resolve_or_loop,
      resolve_under = (\<lambda>d p. resolve_or_loop (d @ ''/'' @ p))\<rparr>"

section \<open>Running the model\<close>

text \<open>The definitions the simplifier unfolds to run the hook on a command.\<close>

lemmas run_defs =
  py_isspace_def endswith_def py_strip_def py_split_def basename_def shlex_whitespace_def
  emit_def shlex_split_def is_quote_def semi_match_def andor_match_def re_split_semi_def
  re_split_andor_def shell_operators_def shell_keywords_def extract_commands_def
  split_command_segments_def keep_def dollar_step_def substitution_bodies_def
  backtick_bodies.simps upper_char_def py_upper_def lower_char_def py_lower_def int_space_def
  is_digit_def digit_val_def py_int_def py_repr_def py_set_repr_def non_flags_def
  allowed_process_names_def pkill_verdict_def validate_pkill_command_def chmod_mode_ok_def
  validate_chmod_command_def rm_dangerous_patterns_def rm_recursive_flag_def rm_dangerous_def
  validate_rm_command_def rmdir_dangerous_patterns_def validate_rmdir_command_def
  allowed_signals_def rejected_signal_def validate_kill_command_def docker_system_dirs_def
  validate_docker_command_def allowed_operations_def validate_systemctl_command_def
  validate_init_script_def user_name_def expanduser_def path_str_def is_relative_to_def cannot_validate_def
  catch_path_errors_def try_bind_def escapes_reason_def within_project_def
  resolve_path_def validate_path_within_project_def path_verdict_def
  SENSITIVE_SYSTEM_DIRECTORIES_def sensitive_hit_def
  validate_cp_source_path_def cp_source_verdict_def file_operation_commands_def output_commands_def
  script_commands_def positional_path_def script_paths_def is_path_def
  extract_file_paths_from_command_def ALLOWED_COMMANDS_def
  COMMANDS_NEEDING_EXTRA_VALIDATION_def extra_validation_def validation_segment_def
  not_allowed_reason_def blocked_def cp_mv_paths_def check_cp_mv_tokens_def
  except_value_error_def check_cp_mv_def path_check_def check_command_def
  bash_security_hook_def bash_def lexical_step_def lexical_resolve_def posix_resolve_def
  plain_env_def resolve_or_loop_def loop_env_def Let_def

text \<open>A string with no substitution syntax has no substitution commands.\<close>

lemma no_bodies_no_commands:
  "substitution_bodies s = [] \<Longrightarrow> extract_substitution_commands s = []"
  by (subst extract_substitution_commands.simps) simp

lemma one_body_commands:
  "substitution_bodies s = [inner] \<Longrightarrow>
   extract_substitution_commands s = extract_commands inner @ extract_substitution_commands inner"
  by (subst extract_substitution_commands.simps) simp

section \<open>Chained commands\<close>

lemma subst_chain_unspaced: "extract_substitution_commands ''echo hi&&unknown_cmd'' = []"
  by (rule no_bodies_no_commands) (simp add: run_defs)

lemma subst_chain_spaced: "extract_substitution_commands ''echo hi && unknown_cmd'' = []"
  by (rule no_bodies_no_commands) (simp add: run_defs)

text \<open>
  C2. The names of every segment of a command chained with \<^verbatim>\<open>;\<close>, \<^verbatim>\<open>&&\<close> or \<^verbatim>\<open>||\<close> are
  to be checked against the allowed set. With blanks around the operator the hook does so:
  \<^verbatim>\<open>echo hi && unknown_cmd\<close> is blocked and the reason names \<^verbatim>\<open>unknown_cmd\<close>. Written
  without blanks, \<^verbatim>\<open>echo hi&&unknown_cmd\<close> is one token to \<^verbatim>\<open>shlex.split\<close>, only
  \<^verbatim>\<open>echo\<close> is extracted, and the hook allows the command, with or without a project
  directory.
\<close>

theorem C2_unspaced_chain_allowed:
  "''unknown_cmd'' \<notin> set ALLOWED_COMMANDS
   \<and> extract_commands ''echo hi&&unknown_cmd'' = [''echo'']
   \<and> bash_security_hook e (bash ''echo hi&&unknown_cmd'') ctx = Inr Allow
   \<and> bash_security_hook e (bash ''echo hi && unknown_cmd'') ctx
       = Inr (Block (''Command '' @ [SQ] @ ''unknown_cmd'' @ [SQ] @ '' is not in the allowed commands list.''))"
proof (intro conjI)
  show "''unknown_cmd'' \<notin> set ALLOWED_COMMANDS"
    by (simp add: ALLOWED_COMMANDS_def)
  show "extract_commands ''echo hi&&unknown_cmd'' = [''echo'']"
    by (simp add: run_defs)
  show "bash_security_hook e (bash ''echo hi&&unknown_cmd'') ctx = Inr Allow"
    by (cases ctx) (simp_all add: run_defs subst_chain_unspaced)
  show "bash_security_hook e (bash ''echo hi && unknown_cmd'') ctx
       = Inr (Block (''Command '' @ [SQ] @ ''unknown_cmd'' @ [SQ] @ '' is not in the allowed commands list.''))"
    by (simp add: run_defs subst_chain_spaced)
qed

section \<open>Substitutions\<close>

lemma subst_foo: "extract_substitution_commands ''foo'' = []"
  by (rule no_bodies_no_commands) (simp add: run_defs)

lemma subst_nested_1: "extract_substitution_commands ''echo $(foo)'' = [''foo'']"
proof -
  have "substitution_bodies ''echo $(foo)'' = [''foo'']" by (simp add: run_defs)
  then show ?thesis by (simp add: one_body_commands subst_foo) (simp add: run_defs)
qed

lemma subst_nested_2: "extract_substitution_commands ''echo $(echo $(foo))'' = [''echo'', ''foo'']"
proof -
  have "substitution_bodies ''echo $(echo $(foo))'' = [''echo $(foo)'']" by (simp add: run_defs)
  then show ?thesis by (simp add: one_body_commands subst_nested_1) (simp add: run_defs)
qed

lemma subst_nested_3:
  "extract_substitution_commands ''echo $(echo $(echo $(foo)))'' = [''echo'', ''echo'', ''foo'']"
proof -
  have "substitution_bodies ''echo $(echo $(echo $(foo)))'' = [''echo $(echo $(foo))'']"
    by (simp add: run_defs)
  then show ?thesis by (simp add: one_body_commands subst_nested_2) (simp add: run_defs)
qed

lemma subst_escaped_quote: "extract_substitution_commands (''echo $(foo '' @ [BSL, SQ] @ '')'') = []"
  by (rule no_bodies_no_commands) (simp add: run_defs)

text \<open>
  C1. A command name inside a \<^verbatim>\<open>$(...)\<close>, backtick or process substitution is to be
  extracted at any depth and checked like a top-level name. Three levels deep the hook
  does so: \<^verbatim>\<open>echo $(echo $(echo $(foo)))\<close> is blocked for \<^verbatim>\<open>foo\<close>. The scan for the
  closing parenthesis knows quotes but not backslashes: in \<^verbatim>\<open>echo $(foo \')\<close> the escaped
  quote opens a quotation that never ends, the body is dropped, \<^verbatim>\<open>foo\<close> is not extracted,
  and the hook allows the command.
\<close>

theorem C1_escaped_quote_hides_substitution:
  "''foo'' \<notin> set ALLOWED_COMMANDS
   \<and> dollar_bodies (''echo $(foo '' @ [BSL, SQ] @ '')'') = []
   \<and> bash_security_hook e (bash (''echo $(foo '' @ [BSL, SQ] @ '')'')) ctx = Inr Allow
   \<and> bash_security_hook e (bash ''echo $(echo $(echo $(foo)))'') ctx
       = Inr (Block (''Command '' @ [SQ] @ ''foo'' @ [SQ] @ '' is not in the allowed commands list.''))"
proof (intro conjI)
  show "''foo'' \<notin> set ALLOWED_COMMANDS"
    by (simp add: ALLOWED_COMMANDS_def)
  show "dollar_bodies (''echo $(foo '' @ [BSL, SQ] @ '')'') = []"
    by (simp add: run_defs)
  show "bash_security_hook e (bash (''echo $(foo '' @ [BSL, SQ] @ '')'')) ctx = Inr Allow"
    using subst_escaped_quote by (cases ctx) (simp_all add: run_defs)
  show "bash_security_hook e (bash ''echo $(echo $(echo $(foo)))'') ctx
       = Inr (Block (''Command '' @ [SQ] @ ''foo'' @ [SQ] @ '' is not in the allowed commands list.''))"
    by (simp add: run_defs subst_nested_3)
qed

section \<open>Unterminated quoting\<close>

lemma subst_ls: "extract_substitution_commands ''ls'' = []"
  by (rule no_bodies_no_commands) (simp add: run_defs)

lemma subst_open_quote: "extract_substitution_commands (''echo '' @ [DQ] @ ''$(ls)'') = [''ls'']"
proof -
  have "substitution_bodies (''echo '' @ [DQ] @ ''$(ls)'') = [''ls'']" by (simp add: run_defs)
  then show ?thesis by (simp add: one_body_commands subst_ls) (simp add: run_defs)
qed

text \<open>
  C5. A command string with unterminated quoting is to be blocked, with no partial parse.
  \<^verbatim>\<open>echo "$(ls)\<close> does not tokenise (\<^verbatim>\<open>shlex.split\<close> raises \<^verbatim>\<open>ValueError\<close>) and
  \<^verbatim>\<open>extract_commands\<close> returns the empty list for it, but the substitution extractor
  still finds \<^verbatim>\<open>ls\<close>; the list of commands is then not empty, the parse failure goes
  unnoticed, and the hook allows the command.
\<close>

theorem C5_unterminated_quote_allowed:
  "shlex_split (''echo '' @ [DQ] @ ''$(ls)'') = Inl (ValueError ''No closing quotation'')
   \<and> extract_commands (''echo '' @ [DQ] @ ''$(ls)'') = []
   \<and> bash_security_hook e (bash (''echo '' @ [DQ] @ ''$(ls)'')) ctx = Inr Allow"
proof (intro conjI)
  show "shlex_split (''echo '' @ [DQ] @ ''$(ls)'') = Inl (ValueError ''No closing quotation'')"
    by (simp add: run_defs)
  show "extract_commands (''echo '' @ [DQ] @ ''$(ls)'') = []"
    by (simp add: run_defs)
  show "bash_security_hook e (bash (''echo '' @ [DQ] @ ''$(ls)'')) ctx = Inr Allow"
    using subst_open_quote by (cases ctx) (simp_all add: run_defs)
qed

section \<open>Exceptions\<close>

lemma subst_pkill: "extract_substitution_commands (''pkill '' @ [DQ] @ '' '' @ [DQ]) = []"
  by (rule no_bodies_no_commands) (simp add: run_defs)

text \<open>
  C6. Every call of the hook is to return one decision, and no exception is to leave it.
  On \<^verbatim>\<open>pkill " "\<close> the validator of \<^verbatim>\<open>pkill\<close> takes the target \<^verbatim>\<open>" "\<close>, finds a space in
  it and evaluates \<^verbatim>\<open>target.split()[0]\<close> on an empty list: \<^verbatim>\<open>IndexError\<close> is raised and
  nothing between the validator and the caller of the hook catches it.
\<close>

theorem C6_pkill_blank_target_raises:
  "bash_security_hook e (bash (''pkill '' @ [DQ] @ '' '' @ [DQ])) ctx
     = Inl (IndexError ''list index out of range'')"
  using subst_pkill by (simp add: run_defs)

section \<open>kill\<close>

lemma subst_kill_group: "extract_substitution_commands ''kill -9 -1 5000'' = []"
  by (rule no_bodies_no_commands) (simp add: run_defs)

lemma subst_kill_init: "extract_substitution_commands ''kill -9 1'' = []"
  by (rule no_bodies_no_commands) (simp add: run_defs)

lemma subst_kill_term: "extract_substitution_commands ''kill -TERM 5000'' = []"
  by (rule no_bodies_no_commands) (simp add: run_defs)

lemma subst_kill_low: "extract_substitution_commands ''kill -9 50'' = []"
  by (rule no_bodies_no_commands) (simp add: run_defs)

text \<open>
  C7. A \<^verbatim>\<open>kill\<close> is to be blocked when it targets PID 1, a negative PID or a PID below
  100, and allowed otherwise when its signal is one of the allowed ones. The examples
  \<^verbatim>\<open>kill -9 1\<close> (blocked), \<^verbatim>\<open>kill -TERM 5000\<close> (allowed) and \<^verbatim>\<open>kill -9 50\<close> (blocked)
  behave so. A negative PID does not: every token that starts with a dash is read as a
  signal, so in \<^verbatim>\<open>kill -9 -1 5000\<close> the target \<^verbatim>\<open>-1\<close> (every process the user may signal)
  becomes the signal \<^verbatim>\<open>1\<close>, which is allowed, the only PID seen is 5000, and the hook
  allows the command.
\<close>

theorem C7_negative_pid_allowed:
  "validate_kill_command ''kill -9 -1 5000'' = (True, [])
   \<and> bash_security_hook e (bash ''kill -9 -1 5000'') ctx = Inr Allow
   \<and> bash_security_hook e (bash ''kill -9 1'') ctx = Inr (Block ''kill blocked: cannot kill PID 1 (init)'')
   \<and> bash_security_hook e (bash ''kill -TERM 5000'') ctx = Inr Allow
   \<and> bash_security_hook e (bash ''kill -9 50'') ctx
       = Inr (Block ''kill blocked: system process PID not allowed: 50'')"
proof (intro conjI)
  show "validate_kill_command ''kill -9 -1 5000'' = (True, [])"
    by (simp add: run_defs)
  show "bash_security_hook e (bash ''kill -9 -1 5000'') ctx = Inr Allow"
    using subst_kill_group by (cases ctx) (simp_all add: run_defs)
  show "bash_security_hook e (bash ''kill -9 1'') ctx = Inr (Block ''kill blocked: cannot kill PID 1 (init)'')"
    using subst_kill_init by (simp add: run_defs)
  show "bash_security_hook e (bash ''kill -TERM 5000'') ctx = Inr Allow"
    using subst_kill_term by (cases ctx) (simp_all add: run_defs)
  show "bash_security_hook e (bash ''kill -9 50'') ctx
       = Inr (Block ''kill blocked: system process PID not allowed: 50'')"
    using subst_kill_low by (simp add: run_defs)
qed

section \<open>Inputs the hook does not examine\<close>

text \<open>
  C10. When the tool name is not \<^verbatim>\<open>Bash\<close> (or is missing), or the command is missing or
  empty, the hook returns allow at once: the result does not depend on the environment
  or on the project directory, so no allowlist, validator or path check has a say.
\<close>

theorem C10_other_tool_or_empty_command_allowed:
  assumes "tool_name input_data \<noteq> Some ''Bash'' \<or> tool_command input_data = None
           \<or> tool_command input_data = Some []"
  shows "bash_security_hook e input_data ctx = Inr Allow"
  using assms by (auto simp: bash_security_hook_def split: option.splits)

theorem C10_other_tool_or_empty_command_witness:
  "bash_security_hook plain_env \<lparr>tool_name = Some ''Read'', tool_command = Some ''unknown_cmd''\<rparr>
     (Some ''/proj'') = Inr Allow
   \<and> bash_security_hook plain_env \<lparr>tool_name = None, tool_command = Some ''unknown_cmd''\<rparr>
     (Some ''/proj'') = Inr Allow
   \<and> bash_security_hook plain_env \<lparr>tool_name = Some ''Bash'', tool_command = None\<rparr>
     (Some ''/proj'') = Inr Allow
   \<and> bash_security_hook plain_env \<lparr>tool_name = Some ''Bash'', tool_command = Some []\<rparr>
     (Some ''/proj'') = Inr Allow"
proof (intro conjI)
  show "bash_security_hook plain_env \<lparr>tool_name = Some ''Read'', tool_command = Some ''unknown_cmd''\<rparr>
     (Some ''/proj'') = Inr Allow"
    by (rule C10_other_tool_or_empty_command_allowed) simp
  show "bash_security_hook plain_env \<lparr>tool_name = None, tool_command = Some ''unknown_cmd''\<rparr>
     (Some ''/proj'') = Inr Allow"
    by (rule C10_other_tool_or_empty_command_allowed) simp
  show "bash_security_hook plain_env \<lparr>tool_name = Some ''Bash'', tool_command = None\<rparr>
     (Some ''/proj'') = Inr Allow"
    by (rule C10_other_tool_or_empty_command_allowed) simp
  show "bash_security_hook plain_env \<lparr>tool_name = Some ''Bash'', tool_command = Some []\<rparr>
     (Some ''/proj'') = Inr Allow"
    by (rule C10_other_tool_or_empty_command_allowed) simp
qed

section \<open>rm\<close>

text \<open>
  What the validator refuses, for a string that tokenises as \<^verbatim>\<open>rm\<close> followed by \<open>args\<close>: no
  target (a token that does not start with a dash), a target that equals, starts with or
  ends with a dangerous pattern, a recursive flag together with a target that has a
  wildcard; and every string that does not tokenise as an \<^verbatim>\<open>rm\<close> command.
\<close>

lemma rm_check_targets_blocks: "rm_check_targets is_recursive targets = Some v \<Longrightarrow> \<not> fst v"
  by (induction targets) (auto split: if_splits)

lemma rm_check_targets_dangerous:
  "list_ex rm_dangerous targets \<Longrightarrow> rm_check_targets is_recursive targets \<noteq> None"
  by (induction targets) auto

lemma rm_check_wildcards_blocks: "rm_check_wildcards targets = Some v \<Longrightarrow> \<not> fst v"
  by (induction targets) (auto split: if_splits)

lemma rm_check_wildcards_found:
  "list_ex (\<lambda>t. CHR ''*'' \<in> set t) targets \<Longrightarrow> rm_check_wildcards targets \<noteq> None"
  by (induction targets) auto

lemma validate_rm_no_target:
  assumes "shlex_split s = Inr (''rm'' # args)" and "non_flags args = []"
  shows "\<not> fst (validate_rm_command s)"
  using assms by (simp add: validate_rm_command_def)

lemma validate_rm_dangerous:
  assumes "shlex_split s = Inr (''rm'' # args)" and "list_ex rm_dangerous (non_flags args)"
  shows "\<not> fst (validate_rm_command s)"
proof -
  from assms(2) have ne: "non_flags args \<noteq> []" by auto
  from assms(2) obtain v where v: "rm_check_targets (list_ex rm_recursive_flag args) (non_flags args) = Some v"
    using rm_check_targets_dangerous by blast
  then have "\<not> fst v" by (rule rm_check_targets_blocks)
  with assms(1) ne v show ?thesis by (simp add: validate_rm_command_def)
qed

lemma validate_rm_recursive_wildcard:
  assumes "shlex_split s = Inr (''rm'' # args)" and "list_ex rm_recursive_flag args"
    and "list_ex (\<lambda>t. CHR ''*'' \<in> set t) (non_flags args)"
  shows "\<not> fst (validate_rm_command s)"
proof -
  from assms(3) have ne: "non_flags args \<noteq> []" by auto
  show ?thesis
  proof (cases "rm_check_targets True (non_flags args)")
    case (Some v)
    then have "\<not> fst v" by (rule rm_check_targets_blocks)
    with assms(1,2) ne Some show ?thesis by (simp add: validate_rm_command_def)
  next
    case None
    from assms(3) obtain w where w: "rm_check_wildcards (non_flags args) = Some w"
      using rm_check_wildcards_found by blast
    then have "\<not> fst w" by (rule rm_check_wildcards_blocks)
    with assms(1,2) ne None w show ?thesis by (simp add: validate_rm_command_def)
  qed
qed

lemma validate_rm_not_rm:
  assumes "\<And>args. shlex_split s \<noteq> Inr (''rm'' # args)"
  shows "\<not> fst (validate_rm_command s)"
  using assms by (auto simp: validate_rm_command_def split: sum.splits list.splits)

lemma subst_rm_rf: "extract_substitution_commands ''rm -rf /*'' = []"
  by (rule no_bodies_no_commands) (simp add: run_defs)

lemma subst_rm_old: "extract_substitution_commands ''rm old.txt'' = []"
  by (rule no_bodies_no_commands) (simp add: run_defs)

lemma hook_rm_rf:
  "bash_security_hook e (bash ''rm -rf /*'') ctx
     = Inr (Block (''rm blocked: dangerous pattern '' @ [SQ] @ ''/*'' @ [SQ]))"
  using subst_rm_rf by (simp add: run_defs)

lemma paths_rm_old: "extract_file_paths_from_command ''rm old.txt'' = [''old.txt'']"
  by (simp add: run_defs)

lemma check_rm_old:
  "check_commands ''rm old.txt'' (split_command_segments ''rm old.txt'') [''rm''] = Inr None"
  by (simp add: run_defs)

lemma commands_rm_old: "extract_commands ''rm old.txt'' = [''rm'']"
  by (simp add: run_defs)

lemma hook_rm_old:
  assumes "validate_path_within_project e ''old.txt'' project_dir ''File operation'' True = Inr (True, r)"
  shows "bash_security_hook e (bash ''rm old.txt'') (Some project_dir) = Inr Allow"
  using assms
  by (simp add: bash_security_hook_def bash_def check_command_def commands_rm_old subst_rm_old
      check_rm_old path_check_def basename_def paths_rm_old del: check_commands.simps)

text \<open>When \<^verbatim>\<open>rm\<close> is the first command extracted, what its validator refuses the hook blocks.\<close>

lemma hook_rm_refused:
  assumes "command \<noteq> []"
    and "extract_commands command @ extract_substitution_commands command = ''rm'' # cs"
    and "\<not> fst (validate_rm_command
              (validation_segment ''rm'' command (split_command_segments command)))"
  shows "bash_security_hook e (bash command) ctx
         = Inr (Block (snd (validate_rm_command
              (validation_segment ''rm'' command (split_command_segments command)))))"
proof -
  obtain ok reason where v: "validate_rm_command
      (validation_segment ''rm'' command (split_command_segments command)) = (ok, reason)"
    by (cases "validate_rm_command
      (validation_segment ''rm'' command (split_command_segments command))")
  with assms(3) have "\<not> ok" by simp
  have allowed: "''rm'' \<in> set ALLOWED_COMMANDS" by (simp add: ALLOWED_COMMANDS_def)
  have extra: "''rm'' \<in> set COMMANDS_NEEDING_EXTRA_VALIDATION"
    by (simp add: COMMANDS_NEEDING_EXTRA_VALIDATION_def)
  have ev: "extra_validation ''rm'' (validation_segment ''rm'' command (split_command_segments command))
            = Inr (ok, reason)"
    using v by (simp add: extra_validation_def)
  have "check_commands command (split_command_segments command) (''rm'' # cs)
        = Inr (Some (Block reason))"
    using allowed extra ev \<open>\<not> ok\<close> by simp
  then show ?thesis
    using assms(1,2) v
    by (simp add: bash_security_hook_def bash_def check_command_def del: check_commands.simps)
qed

lemma subst_rm_chain: "extract_substitution_commands ''rm a.txt && rm -rf /*'' = []"
  by (rule no_bodies_no_commands) (simp add: run_defs)

lemma subst_rm_chain_star: "extract_substitution_commands ''rm a.txt && rm -rf *'' = []"
  by (rule no_bodies_no_commands) (simp add: run_defs)

text \<open>
  C8. The claim is about every \<^verbatim>\<open>rm\<close> invocation. The validator on its own refuses what the
  claim lists (the lemmas above); the hook blocks \<^verbatim>\<open>rm -rf /*\<close> and, with the project
  directory \<^verbatim>\<open>/proj\<close>, allows \<^verbatim>\<open>rm old.txt\<close>. But the hook hands the validator one segment per command name, the first segment in which the name occurs: in
  \<^verbatim>\<open>rm a.txt && rm -rf /*\<close> both occurrences of \<^verbatim>\<open>rm\<close> are validated on the segment
  \<^verbatim>\<open>rm a.txt\<close>, the second invocation never reaches the validator, which would refuse it,
  and with no project directory the hook allows the command. With the project directory
  \<^verbatim>\<open>/proj\<close> the same holds of \<^verbatim>\<open>rm a.txt && rm -rf *\<close>, whose paths all resolve inside the
  project.
\<close>

theorem C8_second_rm_not_validated:
  "extract_commands ''rm a.txt && rm -rf /*'' = [''rm'', ''rm'']
   \<and> split_command_segments ''rm a.txt && rm -rf /*'' = [''rm a.txt'', ''rm -rf /*'']
   \<and> get_command_for_validation ''rm'' [''rm a.txt'', ''rm -rf /*''] = ''rm a.txt''
   \<and> validate_rm_command ''rm a.txt'' = (True, [])
   \<and> validate_rm_command ''rm -rf /*'' = (False, ''rm blocked: dangerous pattern '' @ [SQ] @ ''/*'' @ [SQ])
   \<and> bash_security_hook e (bash ''rm -rf /*'') ctx
       = Inr (Block (''rm blocked: dangerous pattern '' @ [SQ] @ ''/*'' @ [SQ]))
   \<and> bash_security_hook plain_env (bash ''rm old.txt'') (Some ''/proj'') = Inr Allow
   \<and> bash_security_hook e (bash ''rm a.txt && rm -rf /*'') None = Inr Allow
   \<and> validate_rm_command ''rm -rf *''
       = (False, ''rm blocked: recursive deletion with wildcard not allowed: *'')
   \<and> bash_security_hook plain_env (bash ''rm a.txt && rm -rf *'') (Some ''/proj'') = Inr Allow"
proof (intro conjI)
  show "bash_security_hook e (bash ''rm -rf /*'') ctx
       = Inr (Block (''rm blocked: dangerous pattern '' @ [SQ] @ ''/*'' @ [SQ]))"
    using subst_rm_rf by (simp add: run_defs)
  show "bash_security_hook plain_env (bash ''rm old.txt'') (Some ''/proj'') = Inr Allow"
    using subst_rm_old by (simp add: run_defs)
  show "bash_security_hook e (bash ''rm a.txt && rm -rf /*'') None = Inr Allow"
    using subst_rm_chain by (simp add: run_defs)
  show "bash_security_hook plain_env (bash ''rm a.txt && rm -rf *'') (Some ''/proj'') = Inr Allow"
    using subst_rm_chain_star by (simp add: run_defs)
qed (simp_all add: run_defs)

section \<open>Path containment\<close>

lemma validate_escapes:
  assumes "path \<noteq> []" and "resolve e project_dir = Inr project_resolved"
    and "resolve_path e project_dir path = Inr path_resolved"
    and "resolve e ''/tmp'' = Inr tmp_dir"
    and "\<not> is_relative_to path_resolved tmp_dir"
    and "\<not> is_relative_to path_resolved project_resolved"
  shows "validate_path_within_project e path project_dir operation True
         = Inr (False, escapes_reason path path_resolved project_resolved operation)"
  using assms
  by (simp add: validate_path_within_project_def try_bind_def catch_path_errors_def within_project_def)

text \<open>
  A resolution that raises \<^verbatim>\<open>OSError\<close> or \<^verbatim>\<open>ValueError\<close>, the two classes of the
  \<^verbatim>\<open>except\<close> clause, is a refusal whose reason carries the message of the exception.
\<close>

lemma validate_project_caught:
  assumes "path \<noteq> []" and "err = OSError msg \<or> err = ValueError msg"
    and "resolve e project_dir = Inl err"
  shows "validate_path_within_project e path project_dir operation True
         = Inr (cannot_validate path msg)"
  using assms
  by (auto simp: validate_path_within_project_def try_bind_def catch_path_errors_def)

lemma validate_path_caught:
  assumes "path \<noteq> []" and "err = OSError msg \<or> err = ValueError msg"
    and "resolve e project_dir = Inr project_resolved"
    and "resolve_path e project_dir path = Inl err"
  shows "validate_path_within_project e path project_dir operation True
         = Inr (cannot_validate path msg)"
  using assms
  by (auto simp: validate_path_within_project_def try_bind_def catch_path_errors_def)

lemma validate_tmp_caught:
  assumes "path \<noteq> []" and "err = OSError msg \<or> err = ValueError msg"
    and "resolve e project_dir = Inr project_resolved"
    and "resolve_path e project_dir path = Inr path_resolved"
    and "resolve e ''/tmp'' = Inl err"
  shows "validate_path_within_project e path project_dir operation True
         = Inr (cannot_validate path msg)"
  using assms
  by (auto simp: validate_path_within_project_def try_bind_def catch_path_errors_def)

text \<open>The loop over the paths returns at the first path that does not validate.\<close>

lemma check_paths_first_failure:
  assumes "\<forall>p \<in> set pre. validate_path_within_project e p project_dir operation True = Inr (True, [])"
    and "validate_path_within_project e path project_dir operation True = Inr (False, reason)"
  shows "check_paths e project_dir operation prefix command (pre @ path # post)
         = Inr (blocked prefix reason command)"
  using assms by (induction pre) simp_all

text \<open>When the loop over the commands ends without a decision, the path check decides.\<close>

lemma hook_reaches_path_check:
  assumes "command \<noteq> []"
    and "extract_commands command @ extract_substitution_commands command = c # cs"
    and "check_commands command (split_command_segments command) (c # cs) = Inr None"
  shows "bash_security_hook e (bash command) (Some project_dir)
         = path_check e command (c # cs) project_dir"
  using assms
  by (simp add: bash_security_hook_def bash_def check_command_def del: check_commands.simps)

lemma hook_blocks_first_bad_path:
  assumes "command \<noteq> []"
    and "extract_commands command @ extract_substitution_commands command = c # cs"
    and "check_commands command (split_command_segments command) (c # cs) = Inr None"
    and "basename c \<noteq> ''cp''" and "basename c \<noteq> ''mv''"
    and "extract_file_paths_from_command command = pre @ path # post"
    and "\<forall>p \<in> set pre. validate_path_within_project e p project_dir ''File operation'' True = Inr (True, [])"
    and "validate_path_within_project e path project_dir ''File operation'' True = Inr (False, reason)"
  shows "bash_security_hook e (bash command) (Some project_dir) = Inr (blocked [] reason command)"
proof -
  have "bash_security_hook e (bash command) (Some project_dir)
        = path_check e command (c # cs) project_dir"
    using assms(1-3) by (rule hook_reaches_path_check)
  also have "\<dots> = check_paths e project_dir ''File operation'' [] command (pre @ path # post)"
    using assms(4-6) by (simp add: path_check_def)
  also have "\<dots> = Inr (blocked [] reason command)"
    using assms(7,8) by (rule check_paths_first_failure)
  finally show ?thesis .
qed

lemma subst_cp_words: "extract_substitution_commands ''cp /usr/share/dict/words ./w'' = []"
  by (rule no_bodies_no_commands) (simp add: run_defs)

lemma subst_cat_passwd: "extract_substitution_commands ''cat /etc/passwd'' = []"
  by (rule no_bodies_no_commands) (simp add: run_defs)

lemma subst_cat_loop: "extract_substitution_commands ''cat loop/notes.txt'' = []"
  by (rule no_bodies_no_commands) (simp add: run_defs)

lemma subst_cat_null: "extract_substitution_commands (''cat ./a'' @ [CHR 0x00] @ ''b'') = []"
  by (rule no_bodies_no_commands) (simp add: run_defs)

text \<open>
  C3, as the spec states it: with a project directory, every extracted path that
  resolves outside the project directory and \<^verbatim>\<open>/tmp\<close> makes the hook block, and so does
  every failure of the operating system to resolve a path. Two commands show otherwise.

  The sources of a \<^verbatim>\<open>cp\<close> are the exception the code makes on purpose:
  \<^verbatim>\<open>/usr/share/dict/words\<close> is extracted from \<^verbatim>\<open>cp /usr/share/dict/words ./w\<close> and resolves
  outside both roots, it is not on the list of sensitive paths, and the hook allows the
  command.

  A loop of symbolic links is a failure the code does not catch: in CPython 3.11
  \<^verbatim>\<open>Path.resolve\<close> reports it as \<^verbatim>\<open>RuntimeError\<close>, the clause
  \<^verbatim>\<open>except (ValueError, OSError)\<close> lets it pass, and on \<^verbatim>\<open>cat loop/notes.txt\<close> the hook raises
  instead of returning a decision.
\<close>

theorem C3_outside_source_allowed_and_loop_raises:
  "''/usr/share/dict/words'' \<in> set (extract_file_paths_from_command ''cp /usr/share/dict/words ./w'')
   \<and> resolve_path plain_env ''/proj'' ''/usr/share/dict/words'' = Inr [''usr'', ''share'', ''dict'', ''words'']
   \<and> resolve plain_env ''/proj'' = Inr [''proj'']
   \<and> resolve plain_env ''/tmp'' = Inr [''tmp'']
   \<and> \<not> is_relative_to [''usr'', ''share'', ''dict'', ''words''] [''proj'']
   \<and> \<not> is_relative_to [''usr'', ''share'', ''dict'', ''words''] [''tmp'']
   \<and> bash_security_hook plain_env (bash ''cp /usr/share/dict/words ./w'') (Some ''/proj'') = Inr Allow
   \<and> extract_file_paths_from_command ''cat loop/notes.txt'' = [''loop/notes.txt'']
   \<and> resolve_path loop_env ''/proj'' ''loop/notes.txt''
       = Inl (RuntimeError (''Symlink loop from '' @ [SQ] @ ''/proj/loop/notes.txt'' @ [SQ]))
   \<and> bash_security_hook loop_env (bash ''cat loop/notes.txt'') (Some ''/proj'')
       = Inl (RuntimeError (''Symlink loop from '' @ [SQ] @ ''/proj/loop/notes.txt'' @ [SQ]))"
proof (intro conjI)
  show "bash_security_hook plain_env (bash ''cp /usr/share/dict/words ./w'') (Some ''/proj'') = Inr Allow"
    using subst_cp_words by (simp add: run_defs)
  show "bash_security_hook loop_env (bash ''cat loop/notes.txt'') (Some ''/proj'')
       = Inl (RuntimeError (''Symlink loop from '' @ [SQ] @ ''/proj/loop/notes.txt'' @ [SQ]))"
    using subst_cat_loop by (simp add: run_defs)
qed (simp_all add: run_defs)

text \<open>
  C3, amended. Let a project directory be supplied, let the loop over the commands end
  without a decision, and let the first extracted command be neither \<^verbatim>\<open>cp\<close> nor \<^verbatim>\<open>mv\<close>.
  Take the first extracted path that does not validate (those before it validate); it is
  not empty. If it resolves (home shorthand expanded, relative paths under the project
  directory, symbolic links followed) to a path that is under neither the resolved
  \<^verbatim>\<open>/tmp\<close> nor the resolved project directory, the hook blocks and the reason names the
  path as written and as resolved. If resolving the project directory, the path or
  \<^verbatim>\<open>/tmp\<close> fails with \<^verbatim>\<open>OSError\<close> or \<^verbatim>\<open>ValueError\<close>, the hook blocks as well, and the reason
  carries the message of the exception. A failure raised as an exception of another class
  is not part of the statement.
\<close>

theorem C3_path_outside_roots_blocks:
  assumes "command \<noteq> []"
    and "extract_commands command @ extract_substitution_commands command = c # cs"
    and "check_commands command (split_command_segments command) (c # cs) = Inr None"
    and "basename c \<noteq> ''cp''" and "basename c \<noteq> ''mv''"
    and "extract_file_paths_from_command command = pre @ path # post"
    and "\<forall>p \<in> set pre. validate_path_within_project e p project_dir ''File operation'' True = Inr (True, [])"
    and "path \<noteq> []"
  shows "(resolve e project_dir = Inr project_resolved
          \<and> resolve_path e project_dir path = Inr path_resolved
          \<and> resolve e ''/tmp'' = Inr tmp_dir
          \<and> \<not> is_relative_to path_resolved tmp_dir
          \<and> \<not> is_relative_to path_resolved project_resolved
          \<longrightarrow> bash_security_hook e (bash command) (Some project_dir)
              = Inr (Block (''Bash command blocked: Path escapes project directory: ''
                  @ [SQ] @ path @ [SQ] @ '' resolves to '' @ [SQ] @ path_str path_resolved @ [SQ]
                  @ '' which is outside '' @ [SQ] @ path_str project_resolved @ [SQ]
                  @ ''. File operation denied for security.'' @ [CHR 0x0A] @ ''Command: '' @ command)))
       \<and> ((err = OSError msg \<or> err = ValueError msg)
           \<and> (resolve e project_dir = Inl err
               \<or> resolve e project_dir = Inr project_resolved
                  \<and> resolve_path e project_dir path = Inl err
               \<or> resolve e project_dir = Inr project_resolved
                  \<and> resolve_path e project_dir path = Inr path_resolved
                  \<and> resolve e ''/tmp'' = Inl err)
          \<longrightarrow> bash_security_hook e (bash command) (Some project_dir)
              = Inr (Block (''Bash command blocked: Cannot validate path '' @ [SQ] @ path @ [SQ]
                  @ '': '' @ msg @ [CHR 0x0A] @ ''Command: '' @ command)))"
proof (intro conjI impI)
  assume a: "resolve e project_dir = Inr project_resolved
          \<and> resolve_path e project_dir path = Inr path_resolved
          \<and> resolve e ''/tmp'' = Inr tmp_dir
          \<and> \<not> is_relative_to path_resolved tmp_dir
          \<and> \<not> is_relative_to path_resolved project_resolved"
  from a have r1: "resolve e project_dir = Inr project_resolved" by (rule conjunct1)
  from a have r2: "resolve_path e project_dir path = Inr path_resolved" by simp
  from a have r3: "resolve e ''/tmp'' = Inr tmp_dir" by simp
  from a have r4: "\<not> is_relative_to path_resolved tmp_dir" by simp
  from a have r5: "\<not> is_relative_to path_resolved project_resolved" by simp
  have "validate_path_within_project e path project_dir ''File operation'' True
         = Inr (False, escapes_reason path path_resolved project_resolved ''File operation'')"
    by (rule validate_escapes [OF assms(8) r1 r2 r3 r4 r5])
  then have "bash_security_hook e (bash command) (Some project_dir)
      = Inr (blocked [] (escapes_reason path path_resolved project_resolved ''File operation'') command)"
    by (rule hook_blocks_first_bad_path [OF assms(1-7)])
  then show "bash_security_hook e (bash command) (Some project_dir)
              = Inr (Block (''Bash command blocked: Path escapes project directory: ''
                  @ [SQ] @ path @ [SQ] @ '' resolves to '' @ [SQ] @ path_str path_resolved @ [SQ]
                  @ '' which is outside '' @ [SQ] @ path_str project_resolved @ [SQ]
                  @ ''. File operation denied for security.'' @ [CHR 0x0A] @ ''Command: '' @ command))"
    by (simp add: blocked_def escapes_reason_def py_repr_def)
next
  assume b: "(err = OSError msg \<or> err = ValueError msg)
           \<and> (resolve e project_dir = Inl err
               \<or> resolve e project_dir = Inr project_resolved
                  \<and> resolve_path e project_dir path = Inl err
               \<or> resolve e project_dir = Inr project_resolved
                  \<and> resolve_path e project_dir path = Inr path_resolved
                  \<and> resolve e ''/tmp'' = Inl err)"
  from b have cls: "err = OSError msg \<or> err = ValueError msg" by (rule conjunct1)
  from b have raised: "resolve e project_dir = Inl err
               \<or> resolve e project_dir = Inr project_resolved
                  \<and> resolve_path e project_dir path = Inl err
               \<or> resolve e project_dir = Inr project_resolved
                  \<and> resolve_path e project_dir path = Inr path_resolved
                  \<and> resolve e ''/tmp'' = Inl err" by (rule conjunct2)
  have "validate_path_within_project e path project_dir ''File operation'' True
         = Inr (cannot_validate path msg)"
    using raised
  proof (elim disjE conjE)
    assume "resolve e project_dir = Inl err"
    then show ?thesis by (rule validate_project_caught [OF assms(8) cls])
  next
    assume "resolve e project_dir = Inr project_resolved"
      and "resolve_path e project_dir path = Inl err"
    then show ?thesis by (rule validate_path_caught [OF assms(8) cls])
  next
    assume "resolve e project_dir = Inr project_resolved"
      and "resolve_path e project_dir path = Inr path_resolved"
      and "resolve e ''/tmp'' = Inl err"
    then show ?thesis by (rule validate_tmp_caught [OF assms(8) cls])
  qed
  then have "validate_path_within_project e path project_dir ''File operation'' True
         = Inr (False, ''Cannot validate path '' @ py_repr path @ '': '' @ msg)"
    by (simp only: cannot_validate_def)
  then have "bash_security_hook e (bash command) (Some project_dir)
      = Inr (blocked [] (''Cannot validate path '' @ py_repr path @ '': '' @ msg) command)"
    by (rule hook_blocks_first_bad_path [OF assms(1-7)])
  then show "bash_security_hook e (bash command) (Some project_dir)
              = Inr (Block (''Bash command blocked: Cannot validate path '' @ [SQ] @ path @ [SQ]
                  @ '': '' @ msg @ [CHR 0x0A] @ ''Command: '' @ command))"
    by (simp add: blocked_def py_repr_def)
qed

theorem C3_path_outside_roots_witness:
  "bash_security_hook plain_env (bash ''cat /etc/passwd'') (Some ''/proj'')
     = Inr (Block (''Bash command blocked: Path escapes project directory: ''
         @ [SQ] @ ''/etc/passwd'' @ [SQ] @ '' resolves to '' @ [SQ] @ ''/etc/passwd'' @ [SQ]
         @ '' which is outside '' @ [SQ] @ ''/proj'' @ [SQ]
         @ ''. File operation denied for security.'' @ [CHR 0x0A] @ ''Command: cat /etc/passwd''))
   \<and> bash_security_hook plain_env (bash (''cat ./a'' @ [CHR 0x00] @ ''b'')) (Some ''/proj'')
     = Inr (Block (''Bash command blocked: Cannot validate path '' @ [SQ] @ ''./a'' @ [CHR 0x00] @ ''b''
         @ [SQ] @ '': embedded null byte'' @ [CHR 0x0A] @ ''Command: cat ./a'' @ [CHR 0x00] @ ''b''))"
proof (intro conjI)
  have h1: "''cat /etc/passwd'' \<noteq> []" by simp
  have h2: "extract_commands ''cat /etc/passwd'' @ extract_substitution_commands ''cat /etc/passwd''
            = ''cat'' # []"
    using subst_cat_passwd by (simp add: run_defs)
  have h3: "check_commands ''cat /etc/passwd'' (split_command_segments ''cat /etc/passwd'') (''cat'' # [])
            = Inr None"
    by (simp add: run_defs)
  have h4: "basename ''cat'' \<noteq> ''cp''" "basename ''cat'' \<noteq> ''mv''" by (simp_all add: run_defs)
  have h5: "extract_file_paths_from_command ''cat /etc/passwd'' = [] @ ''/etc/passwd'' # []"
    by (simp add: run_defs)
  have h6: "\<forall>p \<in> set []. validate_path_within_project plain_env p ''/proj'' ''File operation'' True
            = Inr (True, [])" by simp
  have h7: "''/etc/passwd'' \<noteq> []" by simp
  have h8: "resolve plain_env ''/proj'' = Inr [''proj'']
        \<and> resolve_path plain_env ''/proj'' ''/etc/passwd'' = Inr [''etc'', ''passwd'']
        \<and> resolve plain_env ''/tmp'' = Inr [''tmp'']
        \<and> \<not> is_relative_to [''etc'', ''passwd''] [''tmp'']
        \<and> \<not> is_relative_to [''etc'', ''passwd''] [''proj'']"
    by (simp add: run_defs)
  have "bash_security_hook plain_env (bash ''cat /etc/passwd'') (Some ''/proj'')
     = Inr (Block (''Bash command blocked: Path escapes project directory: ''
         @ [SQ] @ ''/etc/passwd'' @ [SQ] @ '' resolves to '' @ [SQ] @ path_str [''etc'', ''passwd''] @ [SQ]
         @ '' which is outside '' @ [SQ] @ path_str [''proj''] @ [SQ]
         @ ''. File operation denied for security.'' @ [CHR 0x0A] @ ''Command: '' @ ''cat /etc/passwd''))"
    using C3_path_outside_roots_blocks [OF h1 h2 h3 h4 h5 h6 h7] h8 by blast
  then show "bash_security_hook plain_env (bash ''cat /etc/passwd'') (Some ''/proj'')
     = Inr (Block (''Bash command blocked: Path escapes project directory: ''
         @ [SQ] @ ''/etc/passwd'' @ [SQ] @ '' resolves to '' @ [SQ] @ ''/etc/passwd'' @ [SQ]
         @ '' which is outside '' @ [SQ] @ ''/proj'' @ [SQ]
         @ ''. File operation denied for security.'' @ [CHR 0x0A] @ ''Command: cat /etc/passwd''))"
    by (simp add: path_str_def)
next
  define command where "command = ''cat ./a'' @ [CHR 0x00] @ ''b''"
  define path where "path = ''./a'' @ [CHR 0x00] @ ''b''"
  have h1: "command \<noteq> []" by (simp add: command_def)
  have h2: "extract_commands command @ extract_substitution_commands command = ''cat'' # []"
    unfolding command_def using subst_cat_null by (simp add: run_defs)
  have h3: "check_commands command (split_command_segments command) (''cat'' # []) = Inr None"
    unfolding command_def by (simp add: run_defs)
  have h4: "basename ''cat'' \<noteq> ''cp''" "basename ''cat'' \<noteq> ''mv''" by (simp_all add: run_defs)
  have h5: "extract_file_paths_from_command command = [] @ path # []"
    unfolding command_def path_def by (simp add: run_defs)
  have h6: "\<forall>p \<in> set []. validate_path_within_project plain_env p ''/proj'' ''File operation'' True
            = Inr (True, [])" by simp
  have h7: "path \<noteq> []" by (simp add: path_def)
  have h8: "(ValueError ''embedded null byte'' = OSError ''embedded null byte''
             \<or> ValueError ''embedded null byte'' = ValueError ''embedded null byte'')
        \<and> (resolve plain_env ''/proj'' = Inl (ValueError ''embedded null byte'')
           \<or> resolve plain_env ''/proj'' = Inr [''proj'']
             \<and> resolve_path plain_env ''/proj'' path = Inl (ValueError ''embedded null byte'')
           \<or> resolve plain_env ''/proj'' = Inr [''proj'']
             \<and> resolve_path plain_env ''/proj'' path = Inr []
             \<and> resolve plain_env ''/tmp'' = Inl (ValueError ''embedded null byte''))"
    unfolding path_def by (simp add: run_defs)
  have "bash_security_hook plain_env (bash command) (Some ''/proj'')
     = Inr (Block (''Bash command blocked: Cannot validate path '' @ [SQ] @ path @ [SQ]
         @ '': '' @ ''embedded null byte'' @ [CHR 0x0A] @ ''Command: '' @ command))"
    by (rule C3_path_outside_roots_blocks [OF h1 h2 h3 h4 h5 h6 h7, THEN conjunct2, rule_format,
        of "ValueError ''embedded null byte''" "''embedded null byte''" "[''proj'']" "[]"])
      (rule h8)
  then show "bash_security_hook plain_env (bash (''cat ./a'' @ [CHR 0x00] @ ''b'')) (Some ''/proj'')
     = Inr (Block (''Bash command blocked: Cannot validate path '' @ [SQ] @ ''./a'' @ [CHR 0x00] @ ''b''
         @ [SQ] @ '': embedded null byte'' @ [CHR 0x0A] @ ''Command: cat ./a'' @ [CHR 0x00] @ ''b''))"
    unfolding command_def path_def by simp
qed

section \<open>cp and mv\<close>




text \<open>
  When the deny-list check raises: exactly for a source \<^verbatim>\<open>~name\<close> or \<^verbatim>\<open>~name/...\<close> whose
  user name has a null character. The entries of the list themselves expand without an
  exception, in every environment.
\<close>

lemma expanduser_raises:
  "(\<exists>err. expanduser e path = Inl err)
   \<longleftrightarrow> startswith path ''~'' \<and> CHR 0x00 \<in> set (user_name path)"
  by (auto simp: expanduser_def Let_def split: option.splits)

lemma expanduser_raises_value_error:
  "expanduser e path = Inl err \<Longrightarrow> err = ValueError ''embedded null byte''"
  by (auto simp: expanduser_def Let_def split: option.splits if_splits)

lemma sensitive_loop_returns:
  assumes "\<forall>s \<in> set xs. \<exists>x. expanduser e s = Inr x"
  shows "\<exists>v. sensitive_loop e source_path expanded_path xs = Inr v"
  using assms
proof (induction xs)
  case Nil
  have "sensitive_loop e source_path expanded_path [] = Inr (True, [])" by simp
  then show ?case by (rule exI)
next
  case (Cons s xs)
  from Cons.prems obtain x where x: "expanduser e s = Inr x" by auto
  from Cons.prems have "\<forall>s \<in> set xs. \<exists>x. expanduser e s = Inr x" by simp
  then obtain v where v: "sensitive_loop e source_path expanded_path xs = Inr v"
    using Cons.IH by blast
  show ?case
  proof (cases "sensitive_hit source_path expanded_path s x")
    case None
    with x v show ?thesis by simp
  next
    case (Some w)
    with x have "sensitive_loop e source_path expanded_path (s # xs) = Inr w" by simp
    then show ?thesis by (rule exI)
  qed
qed

lemma sensitive_directories_expand:
  "\<forall>s \<in> set SENSITIVE_SYSTEM_DIRECTORIES. \<exists>x. expanduser e s = Inr x"
  by (simp add: SENSITIVE_SYSTEM_DIRECTORIES_def expanduser_def user_name_def Let_def
      split: option.splits)

lemma cp_source_verdict_raises:
  "(\<exists>err. cp_source_verdict e source_path = Inl err)
   \<longleftrightarrow> startswith source_path ''~'' \<and> CHR 0x00 \<in> set (user_name source_path)"
proof (cases "source_path = []")
  case True
  then show ?thesis by (simp add: cp_source_verdict_def validate_cp_source_path_def)
next
  case False
  show ?thesis
  proof (cases "expanduser e source_path")
    case (Inl err)
    then have "\<exists>err. expanduser e source_path = Inl err" by (rule exI)
    then have "startswith source_path ''~'' \<and> CHR 0x00 \<in> set (user_name source_path)"
      unfolding expanduser_raises .
    moreover from Inl False have "cp_source_verdict e source_path = Inl err"
      by (simp add: cp_source_verdict_def validate_cp_source_path_def try_bind_def)
    ultimately show ?thesis by simp
  next
    case (Inr expanded_path)
    then have "\<not> (\<exists>err. expanduser e source_path = Inl err)" by simp
    then have no: "\<not> (startswith source_path ''~'' \<and> CHR 0x00 \<in> set (user_name source_path))"
      unfolding expanduser_raises .
    obtain v where "sensitive_loop e source_path expanded_path SENSITIVE_SYSTEM_DIRECTORIES = Inr v"
      using sensitive_loop_returns [OF sensitive_directories_expand] by blast
    with Inr False have "cp_source_verdict e source_path = Inr (fst v)"
      by (simp add: cp_source_verdict_def validate_cp_source_path_def try_bind_def)
    with no show ?thesis by simp
  qed
qed




















end
